theory Spec2Isabelle
  imports Complex_Main "HOL-Library.Word"
begin

section \<open>Audio utilities (core/audio.py)\<close>

text \<open>
  PCM data is a Python \<open>bytes\<close> object: a list of 8-bit words. Python integers are
  unbounded and are modelled by \<open>int\<close>. Exceptions are values of a sum type.
\<close>

type_synonym byte = "8 word"
type_synonym bytes = "byte list"

datatype py_error = ZeroDivisionError | ValueError | RuntimeError | OSError | BackendError

text \<open>
  \<open>struct.unpack('<h', ...)\<close>: one little-endian signed 16-bit sample from two bytes.
\<close>

definition unpack_h :: "byte \<Rightarrow> byte \<Rightarrow> int" where
  "unpack_h lo hi =
     (let u = uint lo + 256 * uint hi in if u < 32768 then u else u - 65536)"

text \<open>
  \<open>struct.unpack(f'<{n}h', data[:n * 2])\<close> with \<open>n = len(data) // 2\<close>: the samples of
  the buffer, a trailing odd byte being dropped.
\<close>

fun unpack_samples :: "bytes \<Rightarrow> int list" where
  "unpack_samples (lo # hi # rest) = unpack_h lo hi # unpack_samples rest"
| "unpack_samples _ = []"

text \<open>\<open>struct.pack('<h', v)\<close> for a value already inside the 16-bit range.\<close>

definition pack_h :: "int \<Rightarrow> bytes" where
  "pack_h v = [word_of_int v, word_of_int (v div 256)]"

definition pack_samples :: "int list \<Rightarrow> bytes" where
  "pack_samples out = concat (map pack_h out)"

text \<open>
  \<open>compute_rms\<close>. The source computes in binary floating point; the model computes
  the same expression over the reals.
\<close>

definition compute_rms :: "bytes \<Rightarrow> real" where
  "compute_rms pcm_data =
     (if length pcm_data < 2 then 0
      else let samples = unpack_samples pcm_data in
        if samples = [] then 0
        else sqrt (real_of_int (sum_list (map (\<lambda>s. s * s) samples))
                   / real (length samples)))"

text \<open>Python's \<open>range(i, stop, step)\<close> for a positive step.\<close>

function py_range :: "int \<Rightarrow> int \<Rightarrow> int \<Rightarrow> int list" where
  "py_range i stop step =
     (if 0 < step \<and> i < stop then i # py_range (i + step) stop step else [])"
  by pat_completeness auto
termination
  by (relation "measure (\<lambda>(i, stop, step). nat (stop - i))") auto

declare py_range.simps [simp del]

text \<open>
  \<open>downsample\<close>: \<open>from_rate // to_rate\<close> raises on a zero \<open>to_rate\<close>; each output
  sample is the floor mean of \<open>ratio\<close> input samples, clamped to 16 bits.
\<close>

definition downsample :: "bytes \<Rightarrow> int \<Rightarrow> int \<Rightarrow> py_error + bytes" where
  "downsample data from_rate to_rate =
     (if from_rate = to_rate then Inr data
      else if to_rate = 0 then Inl ZeroDivisionError
      else let ratio = from_rate div to_rate in
        if ratio < 1 then Inr data
        else let samples = unpack_samples data;
                 n = int (length samples);
                 out = map (\<lambda>i. let avg = sum_list (take (nat ratio) (drop (nat i) samples))
                                           div ratio
                                 in max (- 32768) (min 32767 avg))
                           (py_range 0 (n - ratio + 1) ratio)
             in Inr (pack_samples out))"

section \<open>Energy VAD (core/vad.py)\<close>

record EnergyVAD =
  energy_threshold :: int
  silence_frames :: int
  min_speech_frames :: int
  enabled :: bool
  is_speaking :: bool
  speech_count :: int
  silence_count :: int
  audio_buffer :: bytes

definition EnergyVAD_init :: "int \<Rightarrow> int \<Rightarrow> int \<Rightarrow> bool \<Rightarrow> EnergyVAD" where
  "EnergyVAD_init thr sil msf en =
     \<lparr> energy_threshold = thr, silence_frames = sil, min_speech_frames = msf,
       enabled = en, is_speaking = False, speech_count = 0, silence_count = 0,
       audio_buffer = [] \<rparr>"

definition reset :: "EnergyVAD \<Rightarrow> EnergyVAD" where
  "reset v = v \<lparr> is_speaking := False, speech_count := 0, silence_count := 0,
                 audio_buffer := [] \<rparr>"

datatype vad_event = speech_start | speech_end bytes | speaking | silence

text \<open>The test \<open>rms > self.energy_threshold\<close> of \<open>feed\<close> and \<open>check_barge_in\<close>.\<close>

definition energetic :: "EnergyVAD \<Rightarrow> bytes \<Rightarrow> bool" where
  "energetic v pcm_chunk = (compute_rms pcm_chunk > real_of_int (energy_threshold v))"

definition feed :: "EnergyVAD \<Rightarrow> bytes \<Rightarrow> EnergyVAD \<times> vad_event" where
  "feed v pcm_chunk =
     (if energetic v pcm_chunk then
        let v1 = v \<lparr> speech_count := speech_count v + 1, silence_count := 0 \<rparr> in
        if \<not> is_speaking v1 \<and> speech_count v1 \<ge> min_speech_frames v1 then
          (v1 \<lparr> is_speaking := True, audio_buffer := pcm_chunk \<rparr>, speech_start)
        else if is_speaking v1 then
          (v1 \<lparr> audio_buffer := audio_buffer v1 @ pcm_chunk \<rparr>, speaking)
        else (v1, silence)
      else
        if is_speaking v then
          let v1 = v \<lparr> silence_count := silence_count v + 1,
                       audio_buffer := audio_buffer v @ pcm_chunk \<rparr> in
          if silence_count v1 \<ge> silence_frames v1 then
            (reset v1, speech_end (audio_buffer v1))
          else (v1, speaking)
        else (v \<lparr> speech_count := 0 \<rparr>, silence))"

definition check_barge_in :: "EnergyVAD \<Rightarrow> bytes \<Rightarrow> EnergyVAD \<times> bool" where
  "check_barge_in v pcm_chunk =
     (if \<not> enabled v then (v, False)
      else if energetic v pcm_chunk then
        let v1 = v \<lparr> speech_count := speech_count v + 1 \<rparr> in
        if speech_count v1 \<ge> min_speech_frames v1 then (v1, True) else (v1, False)
      else (v \<lparr> speech_count := 0 \<rparr>, False))"

definition start_listening_after_barge_in :: "EnergyVAD \<Rightarrow> bytes \<Rightarrow> EnergyVAD" where
  "start_listening_after_barge_in v pcm_chunk =
     v \<lparr> is_speaking := True, audio_buffer := pcm_chunk, silence_count := 0,
         speech_count := 0 \<rparr>"

text \<open>A run of \<open>feed\<close> calls, frame after frame, keeping the last state.\<close>

fun feeds :: "EnergyVAD \<Rightarrow> bytes list \<Rightarrow> EnergyVAD" where
  "feeds v [] = v"
| "feeds v (f # fs) = feeds (fst (feed v f)) fs"

text \<open>
  The three operations a session performs on its detector, and the events that the
  \<open>feed\<close> calls of a run of operations return, in order.
\<close>

datatype vad_op = Feed bytes | CheckBargeIn bytes | StartListening bytes

fun vad_run :: "EnergyVAD \<Rightarrow> vad_op list \<Rightarrow> vad_event list" where
  "vad_run v [] = []"
| "vad_run v (Feed f # ops) = snd (feed v f) # vad_run (fst (feed v f)) ops"
| "vad_run v (CheckBargeIn f # ops) = vad_run (fst (check_barge_in v f)) ops"
| "vad_run v (StartListening f # ops) = vad_run (start_listening_after_barge_in v f) ops"

text \<open>
  A trace is well bracketed when no \<open>speech_start\<close> follows a \<open>speech_start\<close> without
  a \<open>speech_end\<close> between them; the flag records an open \<open>speech_start\<close>.
\<close>

fun no_double_start :: "bool \<Rightarrow> vad_event list \<Rightarrow> bool" where
  "no_double_start opn [] = True"
| "no_double_start opn (speech_start # es) = (if opn then False else no_double_start True es)"
| "no_double_start opn (speech_end a # es) = no_double_start False es"
| "no_double_start opn (e # es) = no_double_start opn es"

text \<open>
  The invariant of a run of \<open>feed\<close> calls over the frames \<open>fs\<close> from a detector
  \<open>v0\<close>: while speaking, the buffer holds the frames fed since the one on which
  \<open>feed\<close> returned \<open>speech_start\<close>; while idle, \<open>speech_count\<close> is the length of the current run of
  energetic frames.
\<close>

definition vad_inv :: "EnergyVAD \<Rightarrow> EnergyVAD \<Rightarrow> bytes list \<Rightarrow> bool" where
  "vad_inv v0 v fs =
     (if is_speaking v then
        (\<exists>pre seg. fs = pre @ seg \<and> seg \<noteq> [] \<and> audio_buffer v = concat seg \<and>
            energetic v0 (hd seg) \<and>
            snd (feed (feeds v0 pre) (hd seg)) = speech_start \<and>
            nat (min_speech_frames v0) - 1 \<le> length (takeWhile (energetic v0) (rev pre)))
      else speech_count v = int (length (takeWhile (energetic v0) (rev fs))))"


section \<open>Text helpers\<close>

text \<open>Python's \<open>str(n)\<close> for an integer: decimal digits, a minus sign when negative.\<close>

definition digit_char :: "nat \<Rightarrow> char" where
  "digit_char d = ''0123456789'' ! d"

function str_nat :: "nat \<Rightarrow> string" where
  "str_nat n = (if n < 10 then [digit_char n] else str_nat (n div 10) @ [digit_char (n mod 10)])"
  by pat_completeness auto
termination
  by (relation "measure id") auto

declare str_nat.simps [simp del]

definition str_int :: "int \<Rightarrow> string" where
  "str_int i = (if i < 0 then CHR ''-'' # str_nat (nat (- i)) else str_nat (nat i))"

text \<open>Python's \<open>sub in s\<close> on sequences: \<open>sub\<close> occurs as a contiguous slice of \<open>s\<close>.\<close>

fun starts_with :: "'a list \<Rightarrow> 'a list \<Rightarrow> bool" where
  "starts_with [] ys = True"
| "starts_with (x # xs) [] = False"
| "starts_with (x # xs) (y # ys) = (x = y \<and> starts_with xs ys)"

fun py_in :: "'a list \<Rightarrow> 'a list \<Rightarrow> bool" where
  "py_in sub [] = (sub = [])"
| "py_in sub (y # ys) = (starts_with sub (y # ys) \<or> py_in sub ys)"

section \<open>Playback controller (core/playback.py)\<close>

record FSPlayback =
  uuid :: string
  call_id :: string
  is_playing :: bool
  is_active :: bool
  file_counter :: int

definition FSPlayback_init :: "string \<Rightarrow> string \<Rightarrow> FSPlayback" where
  "FSPlayback_init u c =
     \<lparr> uuid = u, call_id = c, is_playing = False, is_active = True, file_counter = 0 \<rparr>"

text \<open>
  What a call does to the outside world, in order: the scratch file written by
  \<open>save_wav\<close>, the \<open>fs_cli\<close> commands, the 50 ms sleeps of the wait loop and the
  removal of the scratch file.
\<close>

datatype fs_effect =
    SaveWav string bytes int
  | Broadcast string string
  | Break string
  | Sleep
  | Unlink string

text \<open>
  The other tasks of the session run while \<open>play_pcm\<close> is suspended at an
  \<open>await\<close>. Those that touch the controller call \<open>stop()\<close> (the flag tells whether
  its \<open>fs_cli\<close> subprocess ran without an exception) or \<open>close()\<close>.
\<close>

datatype env_action = StopCall bool | CloseCall

definition stop :: "FSPlayback \<Rightarrow> bool \<Rightarrow> FSPlayback \<times> fs_effect list" where
  "stop s proc_ok =
     (if uuid s \<noteq> [] \<and> is_playing s then
        (if proc_ok then (s \<lparr> is_playing := False \<rparr>, [Break (uuid s)])
         else (s, [Break (uuid s)]))
      else (s, []))"

definition close :: "FSPlayback \<Rightarrow> FSPlayback" where
  "close s = s \<lparr> is_active := False \<rparr>"

fun env_step :: "FSPlayback \<times> fs_effect list \<Rightarrow> env_action \<Rightarrow> FSPlayback \<times> fs_effect list" where
  "env_step (s, tr) (StopCall ok) = (fst (stop s ok), tr @ snd (stop s ok))"
| "env_step (s, tr) CloseCall = (close s, tr)"

definition env_steps :: "FSPlayback \<times> fs_effect list \<Rightarrow> env_action list \<Rightarrow> FSPlayback \<times> fs_effect list" where
  "env_steps st acts = foldl env_step st acts"

text \<open>
  The outcomes that \<open>play_pcm\<close> cannot decide itself: whether \<open>save_wav\<close> raises,
  what the broadcast subprocess prints (or that starting it, waiting for it or decoding
  its output raises), and what the other tasks do at each suspension.
\<close>

record play_env =
  save_wav_ok :: bool
  broadcast_out :: "py_error + string"
  at_broadcast :: "env_action list"
  at_sleep :: "env_action list list"

text \<open>
  The wait loop: \<open>while elapsed < duration_ms and self.is_playing and self.is_active\<close>,
  one sleep of 50 ms each round, the other tasks running during the sleep.
\<close>

function wait_loop :: "int \<Rightarrow> int \<Rightarrow> FSPlayback \<times> fs_effect list \<Rightarrow> env_action list list
    \<Rightarrow> FSPlayback \<times> fs_effect list" where
  "wait_loop elapsed duration_ms st sched =
     (if elapsed < duration_ms \<and> is_playing (fst st) \<and> is_active (fst st) then
        wait_loop (elapsed + 50) duration_ms
          (env_steps (fst st, snd st @ [Sleep]) (case sched of [] \<Rightarrow> [] | a # _ \<Rightarrow> a))
          (case sched of [] \<Rightarrow> [] | _ # rest \<Rightarrow> rest)
      else st)"
  by pat_completeness auto
termination
  by (relation "measure (\<lambda>(elapsed, duration_ms, st, sched). nat (duration_ms - elapsed))") auto

declare wait_loop.simps [simp del]

definition TTS_DIR :: string where
  "TTS_DIR = ''/tmp/voice_pipeline''"

text \<open>
  The \<open>finally\<close> block of \<open>play_pcm\<close>: clear \<open>is_playing\<close> and remove the scratch
  file, an \<open>OSError\<close> of the removal being swallowed.
\<close>

definition play_finally :: "FSPlayback \<times> fs_effect list \<Rightarrow> string \<Rightarrow> FSPlayback \<times> fs_effect list" where
  "play_finally st wav_path = ((fst st) \<lparr> is_playing := False \<rparr>, snd st @ [Unlink wav_path])"

text \<open>
  \<open>play_pcm\<close> returns the controller, the effects and either the value returned or the
  exception that leaves the call (one raised before the \<open>try\<close> block).
\<close>

definition play_pcm :: "FSPlayback \<Rightarrow> bytes \<Rightarrow> int \<Rightarrow> play_env
    \<Rightarrow> (FSPlayback \<times> fs_effect list) \<times> (py_error + bool)" where
  "play_pcm s pcm_data sample_rate env =
     (if pcm_data = [] \<or> uuid s = [] then ((s, []), Inr False)
      else case (if sample_rate \<noteq> 8000 then downsample pcm_data sample_rate 8000
                 else Inr pcm_data) of
        Inl e \<Rightarrow> ((s, []), Inl e)
      | Inr pcm \<Rightarrow>
          let idx = file_counter s;
              s1 = s \<lparr> file_counter := idx + 1 \<rparr>;
              wav_path = TTS_DIR @ ''/'' @ call_id s1 @ ''_'' @ str_int idx @ ''.wav''
          in if \<not> save_wav_ok env then ((s1, []), Inl OSError)
             else
               let duration_ms = int (length pcm) div 16;
                   s2 = s1 \<lparr> is_playing := True \<rparr>;
                   st2 = (s2, [SaveWav wav_path pcm 8000, Broadcast (uuid s2) wav_path])
               in case broadcast_out env of
                    Inl e \<Rightarrow> (play_finally (env_steps st2 (at_broadcast env)) wav_path, Inr False)
                  | Inr stdout \<Rightarrow>
                      let st3 = env_steps st2 (at_broadcast env) in
                      if \<not> py_in ''+OK'' stdout then
                        (play_finally (fst st3 \<lparr> is_playing := False \<rparr>, snd st3) wav_path,
                         Inr False)
                      else
                        let st4 = wait_loop 0 duration_ms st3 (at_sleep env)
                        in (play_finally st4 wav_path, Inr (is_playing (fst st4))))"

text \<open>
  A controller in use: the calls made on it one after the other (\<open>play_pcm\<close> calls do
  not overlap), each \<open>play_pcm\<close> with its environment.
\<close>

datatype playback_op = PlayPcm bytes int play_env | Stop bool | Close

fun playback_op_step :: "FSPlayback \<Rightarrow> playback_op \<Rightarrow> FSPlayback" where
  "playback_op_step s (PlayPcm pcm rate env) = fst (fst (play_pcm s pcm rate env))"
| "playback_op_step s (Stop ok) = fst (stop s ok)"
| "playback_op_step s Close = close s"

definition playback_run :: "FSPlayback \<Rightarrow> playback_op list \<Rightarrow> FSPlayback" where
  "playback_run s ops = foldl playback_op_step s ops"

section \<open>TTS adapter (tts/zvukogram.py)\<close>

text \<open>
  A Python \<open>str\<close> is a sequence of Unicode code points; \<open>len\<close> counts code points.
  The text handled by the adapter is a list of code points.
\<close>

type_synonym ustr = "nat list"

text \<open>The code points that \<open>str.strip()\<close> removes (those with \<open>str.isspace()\<close>).\<close>

definition is_space :: "nat \<Rightarrow> bool" where
  "is_space c = (c \<in> set [9, 10, 11, 12, 13, 28, 29, 30, 31, 32, 133, 160, 5760,
                           8192, 8193, 8194, 8195, 8196, 8197, 8198, 8199, 8200, 8201, 8202,
                           8232, 8233, 8239, 8287, 12288])"

definition strip :: "ustr \<Rightarrow> ustr" where
  "strip s = rev (dropWhile is_space (rev (dropWhile is_space s)))"

text \<open>The sentence terminators \<open>. ! ?\<close> and the Armenian full stop U+0589.\<close>

definition sentence_enders :: "nat list" where
  "sentence_enders = [46, 33, 63, 1417]"

text \<open>
  The first loop of \<open>_split_text\<close>: \<open>temp\<close> collects the characters of the current
  sentence; a terminator closes it when \<open>temp\<close> is longer than one character.
\<close>

fun split_sentences :: "ustr \<Rightarrow> ustr \<Rightarrow> ustr list \<Rightarrow> ustr list" where
  "split_sentences [] temp sentences =
     (if strip temp \<noteq> [] then sentences @ [strip temp] else sentences)"
| "split_sentences (c # cs) temp sentences =
     (let temp1 = temp @ [c] in
      if c \<in> set sentence_enders \<and> length temp1 > 1
      then split_sentences cs [] (sentences @ [strip temp1])
      else split_sentences cs temp1 sentences)"

text \<open>
  The second loop: sentences are joined with one space while the chunk stays within
  \<open>max_len\<close>; otherwise the chunk is closed and the sentence starts the next one.
\<close>

fun pack_chunks :: "ustr list \<Rightarrow> int \<Rightarrow> ustr \<Rightarrow> ustr list \<Rightarrow> ustr list" where
  "pack_chunks [] max_len current chunks =
     (if current \<noteq> [] then chunks @ [current] else chunks)"
| "pack_chunks (sentence # rest) max_len current chunks =
     (if int (length current) + int (length sentence) + 1 \<le> max_len then
        pack_chunks rest max_len
          (if current \<noteq> [] then strip (current @ [32] @ sentence) else sentence) chunks
      else
        pack_chunks rest max_len sentence
          (if current \<noteq> [] then chunks @ [current] else chunks))"

text \<open>The slice \<open>text[:max_len]\<close>; a negative bound counts from the end.\<close>

definition slice_to :: "'a list \<Rightarrow> int \<Rightarrow> 'a list" where
  "slice_to xs k = (if 0 \<le> k then take (nat k) xs else take (length xs - nat (- k)) xs)"

definition split_text :: "ustr \<Rightarrow> int \<Rightarrow> ustr list" where
  "split_text text max_len =
     (if int (length text) \<le> max_len then [text]
      else let sentences = split_sentences text [] [];
               chunks = pack_chunks sentences max_len [] []
           in if chunks \<noteq> [] then chunks else [slice_to text max_len])"

text \<open>
  \<open>synthesize\<close>: the chunks are synthesized in order and their audio appended;
  \<open>synthesize_chunk\<close> stands for the HTTP exchange of \<open>_synthesize_chunk\<close>, which returns
  the PCM of a chunk, or no bytes on any failure.
\<close>

record tts_result =
  audio :: bytes
  sample_rate :: int

definition synthesize :: "(ustr \<Rightarrow> bytes) \<Rightarrow> int \<Rightarrow> ustr \<Rightarrow> py_error + tts_result" where
  "synthesize synthesize_chunk rate text =
     (let chunks = split_text text 900;
          all_pcm = foldl (\<lambda>acc chunk. let pcm = synthesize_chunk chunk in
                                         if pcm \<noteq> [] then acc @ pcm else acc) [] chunks
      in if all_pcm = [] then Inl RuntimeError
         else Inr \<lparr> audio = all_pcm, sample_rate = rate \<rparr>)"

section \<open>Server front (run.py)\<close>

text \<open>
  A WebSocket message is \<open>bytes\<close> (binary frame) or \<open>str\<close> (text frame). Values that
  \<open>json.loads\<close> can return are JSON values; \<open>session.uuid\<close> holds \<open>None\<close> or whatever
  else was assigned to it (a JSON \<open>null\<close> is Python's \<open>None\<close>).
\<close>

datatype ws_message = Binary bytes | Text ustr

datatype jval = JNull | JBool bool | JNum int | JStr ustr | JArr "jval list"
  | JObj "(ustr \<times> jval) list"

datatype conn_effect = StartTask | HandleAudio bytes

datatype conn_error = TypeError

text \<open>\<open>bytes.decode('ascii')\<close>: fails on a byte above 127.\<close>

definition decode_ascii :: "bytes \<Rightarrow> ustr option" where
  "decode_ascii bs = (if list_all (\<lambda>b. unat b < 128) bs then Some (map unat bs) else None)"

text \<open>\<open>"uuid" in data\<close> and \<open>data["uuid"]\<close> for the value that \<open>json.loads\<close> returned.\<close>

definition uuid_key :: ustr where
  "uuid_key = [117, 117, 105, 100]"

fun json_contains_uuid :: "jval \<Rightarrow> conn_error + bool" where
  "json_contains_uuid (JObj kvs) = Inr (uuid_key \<in> set (map fst kvs))"
| "json_contains_uuid (JStr s) = Inr (py_in uuid_key s)"
| "json_contains_uuid (JArr xs) = Inr (JStr uuid_key \<in> set xs)"
| "json_contains_uuid _ = Inl TypeError"

fun json_get_uuid :: "jval \<Rightarrow> conn_error + jval" where
  "json_get_uuid (JObj kvs) =
     (case map_of (rev kvs) uuid_key of Some v \<Rightarrow> Inr v | None \<Rightarrow> Inl TypeError)"
| "json_get_uuid _ = Inl TypeError"

text \<open>
  One round of the message loop of \<open>handle_connection\<close>: the new value of
  \<open>session.uuid\<close>, the session calls made, and the exception that ends the loop, if
  any. \<open>json_loads\<close> is the JSON parser, \<open>None\<close> standing for \<open>JSONDecodeError\<close>.
\<close>

definition handle_message :: "(ustr \<Rightarrow> jval option) \<Rightarrow> jval option \<Rightarrow> ws_message
    \<Rightarrow> jval option \<times> conn_effect list \<times> conn_error option" where
  "handle_message json_loads session_uuid message =
     (case message of
        Binary msg \<Rightarrow>
          (if session_uuid = None \<and> length msg > 36 then
             (case decode_ascii (take 36 msg) of
                None \<Rightarrow> (session_uuid, [HandleAudio msg], None)
              | Some possible_uuid \<Rightarrow>
                  if 45 \<in> set possible_uuid
                  then (Some (JStr possible_uuid), [StartTask], None)
                  else (session_uuid, [HandleAudio msg], None))
           else (session_uuid, [HandleAudio msg], None))
      | Text msg \<Rightarrow>
          (case json_loads msg of
             Some data \<Rightarrow>
               (case json_contains_uuid data of
                  Inl e \<Rightarrow> (session_uuid, [], Some e)
                | Inr False \<Rightarrow> (session_uuid, [], None)
                | Inr True \<Rightarrow>
                    (case json_get_uuid data of
                       Inl e \<Rightarrow> (session_uuid, [], Some e)
                     | Inr v \<Rightarrow> (if v = JNull then None else Some v, [StartTask], None)))
           | None \<Rightarrow>
               if 45 \<in> set msg \<and> length msg < 50
               then (Some (JStr (strip msg)), [StartTask], None)
               else (session_uuid, [], None)))"

text \<open>
  The textual form of a UUID, as the bridge sends it: 36 ASCII characters, hexadecimal
  digits in groups of 8, 4, 4, 4 and 12 separated by dashes.
\<close>

definition is_hex :: "byte \<Rightarrow> bool" where
  "is_hex b = (let n = unat b in
     (48 \<le> n \<and> n \<le> 57) \<or> (97 \<le> n \<and> n \<le> 102) \<or> (65 \<le> n \<and> n \<le> 70))"

fun matches_form :: "bool list \<Rightarrow> bytes \<Rightarrow> bool" where
  "matches_form [] [] = True"
| "matches_form (h # hs) (b # bs) = ((if h then is_hex b else unat b = 45) \<and> matches_form hs bs)"
| "matches_form _ _ = False"

definition uuid_pattern :: "bool list" where
  "uuid_pattern = replicate 8 True @ [False] @ replicate 4 True @ [False] @ replicate 4 True
     @ [False] @ replicate 4 True @ [False] @ replicate 12 True"

definition uuid_form :: "bytes \<Rightarrow> bool" where
  "uuid_form bs = matches_form uuid_pattern bs"

text \<open>The UUID \<open>aaaaaaaa-aaaa-aaaa-aaaa-aaaaaaaaaaaa\<close> in ASCII, 36 bytes.\<close>

definition example_uuid :: bytes where
  "example_uuid = [0x61, 0x61, 0x61, 0x61, 0x61, 0x61, 0x61, 0x61, 0x2D,
     0x61, 0x61, 0x61, 0x61, 0x2D, 0x61, 0x61, 0x61, 0x61, 0x2D, 0x61, 0x61, 0x61, 0x61, 0x2D,
     0x61, 0x61, 0x61, 0x61, 0x61, 0x61, 0x61, 0x61, 0x61, 0x61, 0x61, 0x61]"

section \<open>Telemetry fanout (db/storage.py, db/redis_client.py)\<close>

text \<open>
  The recorder writes to three sinks. The PostgreSQL and MongoDB clients are recorded as
  the calls made on them, with their arguments; the Redis client is modelled down to
  its commands on a store of hashes, lists, expiry times and published messages. Text
  is carried as \<open>string\<close>; no length of a text is taken here. Floats are carried as the
  reals they denote.
\<close>

datatype sink = PG | Mongo | Redis

datatype pyval = PNone | PStr string | PInt int | PReal real | PTime int
  | PDict "(string \<times> pyval) list"

type_synonym sink_call = "string \<times> (string \<times> pyval) list"

record world =
  pg_log :: "sink_call list"
  mongo_log :: "sink_call list"
  hashes :: "string \<Rightarrow> (string \<times> string) list"
  rlists :: "string \<Rightarrow> (string \<times> pyval) list list"
  expiry :: "string \<Rightarrow> int option"
  published :: "(string \<times> (string \<times> pyval) list) list"
  error_log :: "string list"
  tick :: nat

text \<open>
  A command runs on the world and either completes or raises; what it did before
  raising stays done. Whether a backend call raises is decided by \<open>fails\<close>, from the
  sink and the number of backend calls made so far.
\<close>

type_synonym cmd = "world \<Rightarrow> world \<times> py_error option"

definition backend :: "(sink \<Rightarrow> nat \<Rightarrow> bool) \<Rightarrow> sink \<Rightarrow> (world \<Rightarrow> world) \<Rightarrow> cmd" where
  "backend fails k eff w =
     (let w1 = w \<lparr> tick := tick w + 1 \<rparr> in
      if fails k (tick w) then (w1, Some BackendError) else (eff w1, None))"

definition skip :: cmd where
  "skip w = (w, None)"

definition seq :: "cmd \<Rightarrow> cmd \<Rightarrow> cmd" where
  "seq c1 c2 w = (case c1 w of (w1, Some e) \<Rightarrow> (w1, Some e) | (w1, None) \<Rightarrow> c2 w1)"

text \<open>
  \<open>try: body except Exception as e: logger.error(label)\<close>: the exception is logged and
  the command completes.
\<close>

definition try_except :: "cmd \<Rightarrow> string \<Rightarrow> cmd" where
  "try_except body label w =
     (case body w of
        (w1, Some e) \<Rightarrow> (w1 \<lparr> error_log := error_log w1 @ [label] \<rparr>, None)
      | (w1, None) \<Rightarrow> (w1, None))"

subsection \<open>The Redis client\<close>

definition SESSION_TTL :: int where
  "SESSION_TTL = 1800"

definition session_key :: "string \<Rightarrow> string" where
  "session_key cid = ''call:'' @ cid"

definition history_key :: "string \<Rightarrow> string" where
  "history_key cid = ''call:'' @ cid @ '':history''"

fun hset_field :: "string \<Rightarrow> string \<Rightarrow> (string \<times> string) list \<Rightarrow> (string \<times> string) list" where
  "hset_field k v [] = [(k, v)]"
| "hset_field k v ((k1, v1) # al) =
     (if k = k1 then (k, v) # al else (k1, v1) # hset_field k v al)"

definition hset_mapping :: "(string \<times> string) list \<Rightarrow> (string \<times> string) list \<Rightarrow> (string \<times> string) list" where
  "hset_mapping al kvs = foldl (\<lambda>acc kv. hset_field (fst kv) (snd kv) acc) al kvs"

definition redis_hset :: "(sink \<Rightarrow> nat \<Rightarrow> bool) \<Rightarrow> string \<Rightarrow> (string \<times> string) list \<Rightarrow> cmd" where
  "redis_hset fails key kvs =
     backend fails Redis (\<lambda>w. w \<lparr> hashes := (hashes w)(key := hset_mapping (hashes w key) kvs) \<rparr>)"

definition redis_expire :: "(sink \<Rightarrow> nat \<Rightarrow> bool) \<Rightarrow> string \<Rightarrow> int \<Rightarrow> cmd" where
  "redis_expire fails key ttl =
     backend fails Redis (\<lambda>w. w \<lparr> expiry := (expiry w)(key := Some ttl) \<rparr>)"

definition redis_rpush :: "(sink \<Rightarrow> nat \<Rightarrow> bool) \<Rightarrow> string \<Rightarrow> (string \<times> pyval) list \<Rightarrow> cmd" where
  "redis_rpush fails key item =
     backend fails Redis (\<lambda>w. w \<lparr> rlists := (rlists w)(key := rlists w key @ [item]) \<rparr>)"

definition redis_publish :: "(sink \<Rightarrow> nat \<Rightarrow> bool) \<Rightarrow> string \<Rightarrow> (string \<times> pyval) list \<Rightarrow> cmd" where
  "redis_publish fails channel payload =
     backend fails Redis (\<lambda>w. w \<lparr> published := published w @ [(channel, payload)] \<rparr>)"

definition create_session :: "(sink \<Rightarrow> nat \<Rightarrow> bool) \<Rightarrow> string \<Rightarrow> string \<Rightarrow> string \<Rightarrow> string
    \<Rightarrow> string \<Rightarrow> string \<Rightarrow> string \<Rightarrow> cmd" where
  "create_session fails cid state mode robot_name language scenario_id caller =
     seq (redis_hset fails (session_key cid)
            [(''state'', state), (''mode'', mode), (''robot_name'', robot_name),
             (''language'', language), (''scenario_id'', scenario_id), (''caller'', caller),
             (''turns'', ''0''), (''barge_ins'', ''0'')])
         (redis_expire fails (session_key cid) SESSION_TTL)"

text \<open>The values given to \<open>update_session\<close> are strings or integers; \<open>str(v)\<close> is stored.\<close>

datatype field_val = FStr string | FInt int

fun py_str :: "field_val \<Rightarrow> string" where
  "py_str (FStr s) = s"
| "py_str (FInt i) = str_int i"

definition update_session :: "(sink \<Rightarrow> nat \<Rightarrow> bool) \<Rightarrow> string \<Rightarrow> (string \<times> field_val) list \<Rightarrow> cmd" where
  "update_session fails cid flds =
     (if flds \<noteq> [] then
        redis_hset fails (session_key cid) (map (\<lambda>kv. (fst kv, py_str (snd kv))) flds)
      else skip)"

definition end_session :: "(sink \<Rightarrow> nat \<Rightarrow> bool) \<Rightarrow> string \<Rightarrow> cmd" where
  "end_session fails cid =
     seq (redis_hset fails (session_key cid) [(''state'', ''ended'')])
         (redis_expire fails (session_key cid) 60)"

definition push_message :: "(sink \<Rightarrow> nat \<Rightarrow> bool) \<Rightarrow> string \<Rightarrow> (string \<times> pyval) list \<Rightarrow> cmd" where
  "push_message fails cid message =
     seq (redis_rpush fails (history_key cid) message)
         (redis_expire fails (history_key cid) SESSION_TTL)"

definition publish_event :: "(sink \<Rightarrow> nat \<Rightarrow> bool) \<Rightarrow> string \<Rightarrow> (string \<times> pyval) list \<Rightarrow> cmd" where
  "publish_event fails event_type data =
     redis_publish fails ''call_events'' ((''type'', PStr event_type) # data)"

text \<open>
  Two operations of the Python runtime that the recorder uses are taken as they are,
  as parameters: \<open>float_mul x y\<close> is the double that \<open>x * y\<close> evaluates to on doubles,
  and \<open>int_parse s\<close> is the value of \<open>int(s)\<close> on a string, \<open>None\<close> when it raises
  \<open>ValueError\<close>.
\<close>

record py_runtime =
  float_mul :: "real \<Rightarrow> real \<Rightarrow> real"
  int_parse :: "string \<Rightarrow> int option"

text \<open>
  The Redis block of \<open>on_barge_in\<close>: \<open>get_session\<close> reads the hash (\<open>None\<close> when it
  is empty), the counter is parsed, incremented and written back.
\<close>

definition barge_in_redis :: "py_runtime \<Rightarrow> (sink \<Rightarrow> nat \<Rightarrow> bool) \<Rightarrow> string \<Rightarrow> cmd" where
  "barge_in_redis rt fails cid w =
     (let w1 = w \<lparr> tick := tick w + 1 \<rparr> in
      if fails Redis (tick w) then (w1, Some BackendError)
      else let session = hashes w1 (session_key cid) in
        if session = [] then (w1, None)
        else case int_parse rt (case map_of session ''barge_ins'' of None \<Rightarrow> ''0'' | Some v \<Rightarrow> v) of
               None \<Rightarrow> (w1, Some ValueError)
             | Some n \<Rightarrow> update_session fails cid [(''barge_ins'', FInt (n + 1))] w1)"

subsection \<open>The recorder\<close>

definition pg_call :: "(sink \<Rightarrow> nat \<Rightarrow> bool) \<Rightarrow> sink_call \<Rightarrow> cmd" where
  "pg_call fails c = backend fails PG (\<lambda>w. w \<lparr> pg_log := pg_log w @ [c] \<rparr>)"

definition mongo_call :: "(sink \<Rightarrow> nat \<Rightarrow> bool) \<Rightarrow> sink_call \<Rightarrow> cmd" where
  "mongo_call fails c = backend fails Mongo (\<lambda>w. w \<lparr> mongo_log := mongo_log w @ [c] \<rparr>)"

text \<open>\<open>int(x)\<close> on a finite float: truncation toward zero.\<close>

definition py_int :: "real \<Rightarrow> int" where
  "py_int x = (if 0 \<le> x then \<lfloor>x\<rfloor> else \<lceil>x\<rceil>)"

text \<open>The client calls of the recorder, each with the arguments it is given.\<close>

definition insert_call :: "string \<Rightarrow> string \<Rightarrow> string \<Rightarrow> string \<Rightarrow> string \<Rightarrow> string \<Rightarrow> string
    \<Rightarrow> sink_call" where
  "insert_call cid uid caller mode robot_name language scenario_id =
     (''insert_call'',
      [(''call_id'', PStr cid), (''uuid'', PStr uid), (''caller'', PStr caller),
       (''scenario_id'', if scenario_id \<noteq> [] then PStr scenario_id else PNone),
       (''mode'', PStr mode), (''robot_name'', PStr robot_name),
       (''language'', PStr language)])"

definition finish_call :: "string \<Rightarrow> real \<Rightarrow> int \<Rightarrow> int \<Rightarrow> string \<Rightarrow> sink_call" where
  "finish_call cid duration_sec turns barge_ins status =
     (''finish_call'',
      [(''call_id'', PStr cid), (''duration_sec'', PReal duration_sec),
       (''turns'', PInt turns), (''barge_ins'', PInt barge_ins), (''status'', PStr status)])"

definition create_transcription :: "string \<Rightarrow> string \<Rightarrow> sink_call" where
  "create_transcription cid language =
     (''create_transcription'', [(''call_id'', PStr cid), (''language'', PStr language)])"

definition add_segment :: "string \<Rightarrow> (string \<times> pyval) list \<Rightarrow> sink_call" where
  "add_segment cid segment =
     (''add_segment'', [(''call_id'', PStr cid), (''segment'', PDict segment)])"

definition add_pipeline_step :: "string \<Rightarrow> (string \<times> pyval) list \<Rightarrow> sink_call" where
  "add_pipeline_step cid step =
     (''add_pipeline_step'', [(''call_id'', PStr cid), (''step'', PDict step)])"

definition finish_transcription :: "string \<Rightarrow> int \<Rightarrow> sink_call" where
  "finish_transcription cid total_duration_ms =
     (''finish_transcription'',
      [(''call_id'', PStr cid), (''total_duration_ms'', PInt total_duration_ms)])"

text \<open>The dictionaries that the operations build for the document sink.\<close>

definition pipeline_step :: "string \<Rightarrow> int \<Rightarrow> string \<Rightarrow> string \<Rightarrow> (string \<times> pyval) list" where
  "pipeline_step name duration_ms provider result =
     [(''step'', PStr name), (''duration_ms'', PInt duration_ms),
      (''provider'', PStr provider), (''result'', PStr result)]"

definition user_segment :: "int \<Rightarrow> string \<Rightarrow> real \<Rightarrow> string \<Rightarrow> int \<Rightarrow> (string \<times> pyval) list" where
  "user_segment now txt confidence asr_provider asr_latency_ms =
     [(''role'', PStr ''user''), (''text'', PStr txt), (''confidence'', PReal confidence),
      (''asr_provider'', PStr asr_provider), (''asr_latency_ms'', PInt asr_latency_ms),
      (''timestamp'', PTime now)]"

definition bot_segment :: "int \<Rightarrow> string \<Rightarrow> string \<Rightarrow> int \<Rightarrow> string \<Rightarrow> int
    \<Rightarrow> (string \<times> pyval) list" where
  "bot_segment now txt llm_provider llm_latency_ms tts_provider tts_latency_ms =
     [(''role'', PStr ''assistant''), (''text'', PStr txt),
      (''llm_provider'', PStr llm_provider), (''llm_latency_ms'', PInt llm_latency_ms),
      (''tts_provider'', PStr tts_provider), (''tts_latency_ms'', PInt tts_latency_ms),
      (''timestamp'', PTime now)]"

definition history_message :: "string \<Rightarrow> string \<Rightarrow> (string \<times> pyval) list" where
  "history_message who txt = [(''role'', PStr who), (''text'', PStr txt)]"

definition call_started_data :: "string \<Rightarrow> string \<Rightarrow> string \<Rightarrow> string \<Rightarrow> (string \<times> pyval) list" where
  "call_started_data cid caller mode robot_name =
     [(''call_id'', PStr cid), (''caller'', PStr caller), (''mode'', PStr mode),
      (''robot_name'', PStr robot_name)]"

definition call_ended_data :: "string \<Rightarrow> real \<Rightarrow> int \<Rightarrow> string \<Rightarrow> (string \<times> pyval) list" where
  "call_ended_data cid duration_sec turns status =
     [(''call_id'', PStr cid), (''duration_sec'', PReal duration_sec),
      (''turns'', PInt turns), (''status'', PStr status)]"

definition on_call_start :: "(sink \<Rightarrow> nat \<Rightarrow> bool) \<Rightarrow> string \<Rightarrow> string \<Rightarrow> string \<Rightarrow> string
    \<Rightarrow> string \<Rightarrow> string \<Rightarrow> string \<Rightarrow> cmd" where
  "on_call_start fails cid uid caller mode robot_name language scenario_id =
     seq (try_except
            (pg_call fails (insert_call cid uid caller mode robot_name language scenario_id))
            ''PG insert_call'')
    (seq (try_except
            (mongo_call fails (create_transcription cid language))
            ''Mongo create_transcription'')
         (try_except
            (seq (create_session fails cid ''active'' mode robot_name language scenario_id caller)
                 (publish_event fails ''call_started''
                    (call_started_data cid caller mode robot_name)))
            ''Redis create_session''))"

definition on_user_speech :: "(sink \<Rightarrow> nat \<Rightarrow> bool) \<Rightarrow> int \<Rightarrow> string \<Rightarrow> string \<Rightarrow> real
    \<Rightarrow> string \<Rightarrow> int \<Rightarrow> cmd" where
  "on_user_speech fails now cid txt confidence asr_provider asr_latency_ms =
     (let segment = user_segment now txt confidence asr_provider asr_latency_ms;
          step = pipeline_step ''asr'' asr_latency_ms asr_provider
                   (if txt \<noteq> [] then ''ok'' else ''empty'')
      in seq (try_except
                (seq (mongo_call fails (add_segment cid segment))
                     (mongo_call fails (add_pipeline_step cid step)))
                ''Mongo user_speech'')
             (try_except
                (seq (push_message fails cid (history_message ''user'' txt))
                     (update_session fails cid [(''turns'', FStr (str_int asr_latency_ms))]))
                ''Redis push_message''))"

definition on_bot_response :: "(sink \<Rightarrow> nat \<Rightarrow> bool) \<Rightarrow> int \<Rightarrow> string \<Rightarrow> string \<Rightarrow> string
    \<Rightarrow> int \<Rightarrow> string \<Rightarrow> int \<Rightarrow> cmd" where
  "on_bot_response fails now cid txt llm_provider llm_latency_ms tts_provider tts_latency_ms =
     (let segment = bot_segment now txt llm_provider llm_latency_ms tts_provider tts_latency_ms
      in seq (try_except
                (seq (mongo_call fails (add_segment cid segment))
                (seq (mongo_call fails (add_pipeline_step cid
                        (pipeline_step ''llm'' llm_latency_ms llm_provider ''ok'')))
                     (if tts_provider \<noteq> [] then
                        mongo_call fails (add_pipeline_step cid
                          (pipeline_step ''tts'' tts_latency_ms tts_provider ''ok''))
                      else skip)))
                ''Mongo bot_response'')
             (try_except
                (push_message fails cid (history_message ''assistant'' txt))
                ''Redis push_message''))"

definition on_barge_in :: "py_runtime \<Rightarrow> (sink \<Rightarrow> nat \<Rightarrow> bool) \<Rightarrow> string \<Rightarrow> cmd" where
  "on_barge_in rt fails cid =
     seq (try_except
            (mongo_call fails (add_pipeline_step cid
               (pipeline_step ''barge_in'' 0 ''vad'' ''interrupted'')))
            ''Mongo barge_in'')
         (try_except (barge_in_redis rt fails cid) ''Redis barge_in'')"

definition on_call_end :: "py_runtime \<Rightarrow> (sink \<Rightarrow> nat \<Rightarrow> bool) \<Rightarrow> string \<Rightarrow> real \<Rightarrow> int \<Rightarrow> int
    \<Rightarrow> string \<Rightarrow> cmd" where
  "on_call_end rt fails cid duration_sec turns barge_ins status =
     seq (try_except
            (pg_call fails (finish_call cid duration_sec turns barge_ins status))
            ''PG finish_call'')
    (seq (try_except
            (mongo_call fails
               (finish_transcription cid (py_int (float_mul rt duration_sec 1000))))
            ''Mongo finish_transcription'')
         (try_except
            (seq (end_session fails cid)
                 (publish_event fails ''call_ended''
                    (call_ended_data cid duration_sec turns status)))
            ''Redis end_session''))"

text \<open>The public surface of the recorder: one call of one of its five operations.\<close>

datatype telemetry_call =
    OnCallStart string string string string string string string
  | OnUserSpeech int string string real string int
  | OnBotResponse int string string string int string int
  | OnBargeIn string
  | OnCallEnd string real int int string

fun storage_call :: "py_runtime \<Rightarrow> (sink \<Rightarrow> nat \<Rightarrow> bool) \<Rightarrow> telemetry_call \<Rightarrow> cmd" where
  "storage_call rt fails (OnCallStart cid uid caller mode robot_name language scenario_id) =
     on_call_start fails cid uid caller mode robot_name language scenario_id"
| "storage_call rt fails (OnUserSpeech now cid txt confidence asr_provider asr_latency_ms) =
     on_user_speech fails now cid txt confidence asr_provider asr_latency_ms"
| "storage_call rt fails (OnBotResponse now cid txt llm_provider llm_latency_ms tts_provider
       tts_latency_ms) =
     on_bot_response fails now cid txt llm_provider llm_latency_ms tts_provider tts_latency_ms"
| "storage_call rt fails (OnBargeIn cid) = on_barge_in rt fails cid"
| "storage_call rt fails (OnCallEnd cid duration_sec turns barge_ins status) =
     on_call_end rt fails cid duration_sec turns barge_ins status"

text \<open>What a sink holds: the part of the world that its calls write.\<close>

type_synonym redis_store = "(string \<Rightarrow> (string \<times> string) list)
    \<times> (string \<Rightarrow> (string \<times> pyval) list list) \<times> (string \<Rightarrow> int option)
    \<times> (string \<times> (string \<times> pyval) list) list"

definition pg_part :: "world \<Rightarrow> sink_call list" where
  "pg_part w = pg_log w"

definition mongo_part :: "world \<Rightarrow> sink_call list" where
  "mongo_part w = mongo_log w"

definition redis_part :: "world \<Rightarrow> redis_store" where
  "redis_part w = (hashes w, rlists w, expiry w, published w)"

subsection \<open>The writes of each operation, sink by sink\<close>

text \<open>
  The calls that an operation makes on the relational and on the document sink, in
  order, as the bodies of the operations in \<open>storage.py\<close> list them.
\<close>

fun pg_writes :: "telemetry_call \<Rightarrow> sink_call list" where
  "pg_writes (OnCallStart cid uid caller mode robot_name language scenario_id) =
     [insert_call cid uid caller mode robot_name language scenario_id]"
| "pg_writes (OnCallEnd cid duration_sec turns barge_ins status) =
     [finish_call cid duration_sec turns barge_ins status]"
| "pg_writes (OnUserSpeech now cid txt confidence asr_provider asr_latency_ms) = []"
| "pg_writes (OnBotResponse now cid txt llm_provider llm_latency_ms tts_provider
       tts_latency_ms) = []"
| "pg_writes (OnBargeIn cid) = []"

fun mongo_writes :: "py_runtime \<Rightarrow> telemetry_call \<Rightarrow> sink_call list" where
  "mongo_writes rt (OnCallStart cid uid caller mode robot_name language scenario_id) =
     [create_transcription cid language]"
| "mongo_writes rt (OnUserSpeech now cid txt confidence asr_provider asr_latency_ms) =
     [add_segment cid (user_segment now txt confidence asr_provider asr_latency_ms),
      add_pipeline_step cid (pipeline_step ''asr'' asr_latency_ms asr_provider
         (if txt \<noteq> [] then ''ok'' else ''empty''))]"
| "mongo_writes rt (OnBotResponse now cid txt llm_provider llm_latency_ms tts_provider
       tts_latency_ms) =
     [add_segment cid (bot_segment now txt llm_provider llm_latency_ms tts_provider
         tts_latency_ms),
      add_pipeline_step cid (pipeline_step ''llm'' llm_latency_ms llm_provider ''ok'')]
     @ (if tts_provider \<noteq> []
        then [add_pipeline_step cid (pipeline_step ''tts'' tts_latency_ms tts_provider ''ok'')]
        else [])"
| "mongo_writes rt (OnBargeIn cid) =
     [add_pipeline_step cid (pipeline_step ''barge_in'' 0 ''vad'' ''interrupted'')]"
| "mongo_writes rt (OnCallEnd cid duration_sec turns barge_ins status) =
     [finish_transcription cid (py_int (float_mul rt duration_sec 1000))]"

text \<open>
  The commands that an operation sends to the ephemeral sink, and what each does to the
  store. \<open>on_barge_in\<close> writes the counter only when the session hash exists and its
  counter parses.
\<close>

datatype redis_command =
    HSET string "(string \<times> string) list"
  | EXPIRE string int
  | RPUSH string "(string \<times> pyval) list"
  | PUBLISH string "(string \<times> pyval) list"

fun redis_apply :: "redis_store \<Rightarrow> redis_command \<Rightarrow> redis_store" where
  "redis_apply (h, l, e, p) (HSET key kvs) = (h(key := hset_mapping (h key) kvs), l, e, p)"
| "redis_apply (h, l, e, p) (EXPIRE key ttl) = (h, l, e(key := Some ttl), p)"
| "redis_apply (h, l, e, p) (RPUSH key item) = (h, l(key := l key @ [item]), e, p)"
| "redis_apply (h, l, e, p) (PUBLISH channel payload) = (h, l, e, p @ [(channel, payload)])"

fun redis_writes :: "py_runtime \<Rightarrow> telemetry_call \<Rightarrow> redis_store \<Rightarrow> redis_command list" where
  "redis_writes rt (OnCallStart cid uid caller mode robot_name language scenario_id) store =
     [HSET (session_key cid)
        [(''state'', ''active''), (''mode'', mode), (''robot_name'', robot_name),
         (''language'', language), (''scenario_id'', scenario_id), (''caller'', caller),
         (''turns'', ''0''), (''barge_ins'', ''0'')],
      EXPIRE (session_key cid) 1800,
      PUBLISH ''call_events''
        ((''type'', PStr ''call_started'') # call_started_data cid caller mode robot_name)]"
| "redis_writes rt (OnUserSpeech now cid txt confidence asr_provider asr_latency_ms) store =
     [RPUSH (history_key cid) (history_message ''user'' txt),
      EXPIRE (history_key cid) 1800,
      HSET (session_key cid) [(''turns'', str_int asr_latency_ms)]]"
| "redis_writes rt (OnBotResponse now cid txt llm_provider llm_latency_ms tts_provider
       tts_latency_ms) store =
     [RPUSH (history_key cid) (history_message ''assistant'' txt),
      EXPIRE (history_key cid) 1800]"
| "redis_writes rt (OnBargeIn cid) store =
     (let session = fst store (session_key cid) in
      if session = [] then []
      else case int_parse rt (case map_of session ''barge_ins'' of None \<Rightarrow> ''0'' | Some v \<Rightarrow> v) of
             None \<Rightarrow> []
           | Some n \<Rightarrow> [HSET (session_key cid) [(''barge_ins'', str_int (n + 1))]])"
| "redis_writes rt (OnCallEnd cid duration_sec turns barge_ins status) store =
     [HSET (session_key cid) [(''state'', ''ended'')],
      EXPIRE (session_key cid) 60,
      PUBLISH ''call_events''
        ((''type'', PStr ''call_ended'') # call_ended_data cid duration_sec turns status)]"

text \<open>No backend call ever fails.\<close>

definition no_failure :: "sink \<Rightarrow> nat \<Rightarrow> bool" where
  "no_failure k n = False"

text \<open>The world before the first call: nothing recorded.\<close>

definition empty_world :: world where
  "empty_world = \<lparr> pg_log = [], mongo_log = [], hashes = (\<lambda>k. []), rlists = (\<lambda>k. []),
     expiry = (\<lambda>k. None), published = [], error_log = [], tick = 0 \<rparr>"

section \<open>Session orchestrators (core/sessions)\<close>

text \<open>
  The part of a session that \<open>_process_speech\<close> reads and writes. A message of the
  dialog context is a role and a content; a transcript line is the speaker and the text
  that follows the speaker's prefix.
\<close>

datatype role = System | User | Assistant

datatype transcript_line = ClientLine ustr | BotLine ustr

record turn_metric =
  tm_turn :: int
  tm_asr_ms :: int
  tm_text :: ustr

record session =
  session_active :: bool
  barge_in_triggered :: bool
  barge_in_count :: int
  messages :: "(role \<times> ustr) list"
  transcript :: "transcript_line list"
  turn_metrics :: "turn_metric list"
  total_turns :: int
  has_storage :: bool

text \<open>
  The calls a reply makes on its providers, on the playback controller and on the
  recorder (spawned as tasks), in order.
\<close>

datatype session_effect =
    AsrRecognize bytes int
  | LlmChatStream "(role \<times> ustr) list"
  | LlmChat "(role \<times> ustr) list"
  | TtsSynthesize ustr
  | PlayPcmCall bytes int
  | SpawnUserSpeech ustr int
  | SpawnBotResponse ustr int

text \<open>
  What other tasks of the session may do while the reply is suspended: a barge-in
  detected by \<open>handle_audio\<close>, or \<open>stop()\<close>.
\<close>

datatype async_event = BargeIn | SessionStop

fun async_step :: "session \<Rightarrow> async_event \<Rightarrow> session" where
  "async_step s BargeIn =
     s \<lparr> barge_in_count := barge_in_count s + 1, barge_in_triggered := True \<rparr>"
| "async_step s SessionStop = s \<lparr> session_active := False \<rparr>"

definition async_steps :: "session \<Rightarrow> async_event list \<Rightarrow> session" where
  "async_steps s evs = foldl async_step s evs"

text \<open>
  One sentence of the LLM stream with what surrounds it: the events while the sentence
  was awaited, the outcome of its synthesis, the events during the synthesis and during
  the playback.
\<close>

record stream_item =
  sentence :: ustr
  before_sentence :: "async_event list"
  tts_outcome :: "py_error + tts_result"
  during_tts :: "async_event list"
  during_play :: "async_event list"

text \<open>
  The loop \<open>async for sentence in chat_stream_sentences\<close> of the pipeline variant. It
  returns the session, the text collected, the effects and whether it left by
  \<open>break\<close>.
\<close>

fun stream_loop :: "session \<Rightarrow> stream_item list \<Rightarrow> ustr \<Rightarrow> session_effect list
    \<Rightarrow> session \<times> ustr \<times> session_effect list \<times> bool" where
  "stream_loop s [] full_response eff = (s, full_response, eff, False)"
| "stream_loop s (it # rest) full_response eff =
     (let s1 = async_steps s (before_sentence it) in
      if \<not> session_active s1 \<or> barge_in_triggered s1 then (s1, full_response, eff, True)
      else
        let full1 = full_response @ (if full_response \<noteq> [] then [32] else []) @ sentence it;
            s2 = async_steps s1 (during_tts it);
            eff1 = eff @ [TtsSynthesize (sentence it)]
        in case tts_outcome it of
             Inl e \<Rightarrow> stream_loop s2 rest full1 eff1
           | Inr tr \<Rightarrow>
               if audio tr \<noteq> [] \<and> session_active s2 \<and> \<not> barge_in_triggered s2
               then stream_loop (async_steps s2 (during_play it)) rest full1
                      (eff1 @ [PlayPcmCall (audio tr) (sample_rate tr)])
               else stream_loop s2 rest full1 eff1)"

text \<open>
  What \<open>_process_speech\<close> of the pipeline variant meets: the outcome of the recognition
  (an exception or the text), the measured latencies, the sentences of the stream and
  whether the stream ends by raising.
\<close>

record pipeline_env =
  asr_outcome :: "py_error + ustr"
  asr_ms :: int
  llm_items :: "stream_item list"
  llm_raises :: bool
  llm_total_ms :: int

text \<open>The user turn common to both variants, after a non-empty recognition.\<close>

definition record_user_turn :: "session \<Rightarrow> ustr \<Rightarrow> int \<Rightarrow> session \<times> session_effect list" where
  "record_user_turn s txt ms =
     (s \<lparr> messages := messages s @ [(User, txt)],
          transcript := transcript s @ [ClientLine txt],
          turn_metrics := turn_metrics s
             @ [\<lparr> tm_turn = total_turns s, tm_asr_ms = ms, tm_text = txt \<rparr>] \<rparr>,
      if has_storage s then [SpawnUserSpeech txt ms] else [])"

definition pipeline_process_speech :: "session \<Rightarrow> int \<Rightarrow> bytes \<Rightarrow> pipeline_env
    \<Rightarrow> session \<times> session_effect list" where
  "pipeline_process_speech s fs_rate audio_data env =
     (let s0 = s \<lparr> total_turns := total_turns s + 1, barge_in_triggered := False \<rparr>;
          eff0 = [AsrRecognize audio_data fs_rate]
      in case asr_outcome env of
           Inl e \<Rightarrow> (s0, eff0)
         | Inr txt \<Rightarrow>
             if txt = [] then (s0, eff0)
             else
               let (s1, eff1) = record_user_turn s0 txt (asr_ms env);
                   (s2, full_response, eff2, broke) =
                      stream_loop s1 (llm_items env) []
                        (eff0 @ eff1 @ [LlmChatStream (messages s1)])
               in if llm_raises env \<and> \<not> broke then (s2, eff2)
                  else if strip full_response \<noteq> [] then
                    (s2 \<lparr> messages := messages s2 @ [(Assistant, strip full_response)],
                          transcript := transcript s2 @ [BotLine (strip full_response)] \<rparr>,
                     eff2 @ (if has_storage s2
                             then [SpawnBotResponse (strip full_response) (llm_total_ms env)]
                             else []))
                  else (s2, eff2))"

text \<open>
  The script variant: the LLM names a file of the track catalog. \<open>str.strip(chars)\<close>
  removes the given characters at both ends.
\<close>

definition strip_chars :: "nat list \<Rightarrow> ustr \<Rightarrow> ustr" where
  "strip_chars cs s =
     rev (dropWhile (\<lambda>c. c \<in> set cs) (rev (dropWhile (\<lambda>c. c \<in> set cs) s)))"

record script_env =
  s_asr_outcome :: "py_error + ustr"
  s_asr_ms :: int
  chat_outcome :: "py_error + ustr"
  during_chat :: "async_event list"
  s_llm_ms :: int

definition script_process_speech :: "session \<Rightarrow> (ustr \<times> bytes \<times> int) list \<Rightarrow> int \<Rightarrow> bytes
    \<Rightarrow> script_env \<Rightarrow> session \<times> session_effect list" where
  "script_process_speech s tracks fs_rate audio_data env =
     (let s0 = s \<lparr> total_turns := total_turns s + 1, barge_in_triggered := False \<rparr>;
          eff0 = [AsrRecognize audio_data fs_rate]
      in case s_asr_outcome env of
           Inl e \<Rightarrow> (s0, eff0)
         | Inr txt \<Rightarrow>
             if txt = [] then (s0, eff0)
             else
               let (s1, eff1) = record_user_turn s0 txt (s_asr_ms env);
                   eff2 = eff0 @ eff1 @ [LlmChat (messages s1)];
                   s2 = async_steps s1 (during_chat env)
               in case chat_outcome env of
                    Inl e \<Rightarrow> (s2, eff2)
                  | Inr raw_answer \<Rightarrow>
                      let chosen_file = strip (strip_chars [39] (strip_chars [34] (strip raw_answer)));
                          s3 = s2 \<lparr> messages := messages s2 @ [(Assistant, chosen_file)] \<rparr>;
                          eff3 = eff2 @ (if has_storage s3
                                         then [SpawnBotResponse chosen_file (s_llm_ms env)]
                                         else [])
                      in case map_of tracks chosen_file of
                           Some (pcm, rate) \<Rightarrow>
                             (s3 \<lparr> transcript := transcript s3
                                     @ [BotLine ([91] @ chosen_file @ [93])] \<rparr>,
                              if session_active s3 \<and> \<not> barge_in_triggered s3
                              then eff3 @ [PlayPcmCall pcm rate] else eff3)
                         | None \<Rightarrow>
                             (s3 \<lparr> transcript := transcript s3
                                     @ [BotLine ([91, 117, 110, 107, 110, 111, 119, 110, 58, 32]
                                                 @ chosen_file @ [93])] \<rparr>,
                              eff3))"

text \<open>A session as its constructor leaves it, with the system prompt in the context.\<close>

definition session_init :: "ustr \<Rightarrow> bool \<Rightarrow> session" where
  "session_init system_prompt storage =
     \<lparr> session_active = True, barge_in_triggered = False, barge_in_count = 0,
       messages = [(System, system_prompt)], transcript = [], turn_metrics = [],
       total_turns = 0, has_storage = storage \<rparr>"

section \<open>Verified properties\<close>

subsection \<open>Energy VAD: bracketing of speech events\<close>

lemma feed_speaking_open:
  "is_speaking v \<Longrightarrow> snd (feed v f) \<noteq> speech_start"
  by (simp add: feed_def Let_def reset_def)

lemma feed_keeps_speaking:
  "is_speaking v \<Longrightarrow> (\<forall>a. snd (feed v f) \<noteq> speech_end a) \<Longrightarrow> is_speaking (fst (feed v f))"
  by (simp add: feed_def Let_def reset_def split: if_splits)

lemma feed_start_speaking:
  "snd (feed v f) = speech_start \<Longrightarrow> is_speaking (fst (feed v f))"
  by (simp add: feed_def Let_def reset_def split: if_splits)

lemma check_barge_in_speaking:
  "is_speaking (fst (check_barge_in v f)) = is_speaking v"
  by (simp add: check_barge_in_def Let_def)

lemma vad_run_bracketed:
  "(opn \<longrightarrow> is_speaking v) \<Longrightarrow> no_double_start opn (vad_run v ops)"
proof (induction ops arbitrary: v opn)
  case Nil
  then show ?case by simp
next
  case (Cons a ops)
  show ?case
  proof (cases a)
    case (Feed f)
    show ?thesis
    proof (cases "snd (feed v f)")
      case speech_start
      with Cons.prems feed_speaking_open[of v f] have "\<not> opn" by auto
      moreover have "no_double_start True (vad_run (fst (feed v f)) ops)"
        using Cons.IH[of True "fst (feed v f)"] feed_start_speaking[OF speech_start] by simp
      ultimately show ?thesis using Feed speech_start by simp
    next
      case (speech_end x2)
      then show ?thesis using Feed Cons.IH[of False "fst (feed v f)"] by simp
    next
      case speaking
      have "opn \<longrightarrow> is_speaking (fst (feed v f))"
        using Cons.prems feed_keeps_speaking[of v f] speaking by auto
      then show ?thesis using Feed speaking Cons.IH[of opn "fst (feed v f)"] by simp
    next
      case silence
      have "opn \<longrightarrow> is_speaking (fst (feed v f))"
        using Cons.prems feed_keeps_speaking[of v f] silence by auto
      then show ?thesis using Feed silence Cons.IH[of opn "fst (feed v f)"] by simp
    qed
  next
    case (CheckBargeIn f)
    then show ?thesis using Cons.IH[of opn "fst (check_barge_in v f)"] Cons.prems
      by (simp add: check_barge_in_speaking)
  next
    case (StartListening f)
    then show ?thesis using Cons.IH[of opn "start_listening_after_barge_in v f"]
      by (simp add: start_listening_after_barge_in_def)
  qed
qed

text \<open>
  Claim C6. Along any sequence of \<open>feed\<close>, \<open>check_barge_in\<close> and
  \<open>start_listening_after_barge_in\<close> calls on a fresh detector, the events returned by
  \<open>feed\<close> never contain two \<open>speech_start\<close> events without a \<open>speech_end\<close>
  event between them.
\<close>

theorem vad_no_double_speech_start:
  "no_double_start False (vad_run (EnergyVAD_init thr sil msf en) ops)"
  by (rule vad_run_bracketed) simp

theorem vad_no_double_speech_start_witness:
  "no_double_start False
     (vad_run (EnergyVAD_init 200 1 2 True)
        [Feed [0x10, 0x27], Feed [0x10, 0x27], CheckBargeIn [0x10, 0x27],
         StartListening [0x10, 0x27], Feed [0, 0], Feed [0x10, 0x27], Feed [0x10, 0x27]])"
  by (rule vad_no_double_speech_start)


subsection \<open>Energy VAD: the audio of an utterance\<close>

lemma feeds_snoc: "feeds v (fs @ [f]) = fst (feed (feeds v fs) f)"
  by (induction fs arbitrary: v) simp_all

lemma feed_config:
  "energy_threshold (fst (feed v f)) = energy_threshold v"
  "min_speech_frames (fst (feed v f)) = min_speech_frames v"
  "silence_frames (fst (feed v f)) = silence_frames v"
  by (simp_all add: feed_def Let_def reset_def)

lemma feeds_config:
  "energy_threshold (feeds v fs) = energy_threshold v"
  "min_speech_frames (feeds v fs) = min_speech_frames v"
  by (induction fs arbitrary: v) (simp_all add: feed_config)

lemma energetic_cong: "energy_threshold v = energy_threshold w \<Longrightarrow> energetic v = energetic w"
  by (simp add: energetic_def fun_eq_iff)

lemma vad_inv_step:
  assumes inv: "vad_inv v0 (feeds v0 fs) fs"
  shows "vad_inv v0 (fst (feed (feeds v0 fs) f)) (fs @ [f])"
proof -
  let ?v = "feeds v0 fs"
  have thr: "energy_threshold ?v = energy_threshold v0"
    and msf: "min_speech_frames ?v = min_speech_frames v0"
    by (simp_all add: feeds_config)
  have en: "energetic ?v = energetic v0" using thr by (rule energetic_cong)
  show ?thesis
  proof (cases "is_speaking ?v")
    case True
    then obtain pre seg where ps: "fs = pre @ seg" "seg \<noteq> []" "audio_buffer ?v = concat seg"
      "energetic v0 (hd seg)" "snd (feed (feeds v0 pre) (hd seg)) = speech_start"
      "nat (min_speech_frames v0) - 1 \<le> length (takeWhile (energetic v0) (rev pre))"
      using inv by (auto simp: vad_inv_def)
    have ext: "\<exists>pre' seg'. fs @ [f] = pre' @ seg' \<and> seg' \<noteq> [] \<and>
        audio_buffer ?v @ f = concat seg' \<and> energetic v0 (hd seg') \<and>
        snd (feed (feeds v0 pre') (hd seg')) = speech_start \<and>
        nat (min_speech_frames v0) - 1 \<le> length (takeWhile (energetic v0) (rev pre'))"
      using ps by (intro exI[of _ pre] exI[of _ "seg @ [f]"]) simp
    show ?thesis
    proof (cases "energetic ?v f")
      case e: True
      then show ?thesis using True ext by (simp add: feed_def Let_def vad_inv_def)
    next
      case e: False
      show ?thesis
      proof (cases "silence_count ?v + 1 \<ge> silence_frames ?v")
        case True
        then show ?thesis using \<open>is_speaking ?v\<close> e en
          by (simp add: feed_def Let_def vad_inv_def reset_def)
      next
        case False
        then show ?thesis using \<open>is_speaking ?v\<close> e ext
          by (simp add: feed_def Let_def vad_inv_def)
      qed
    qed
  next
    case False
    then have cnt: "speech_count ?v = int (length (takeWhile (energetic v0) (rev fs)))"
      using inv by (simp add: vad_inv_def)
    show ?thesis
    proof (cases "energetic ?v f")
      case e: True
      show ?thesis
      proof (cases "speech_count ?v + 1 \<ge> min_speech_frames ?v")
        case True
        have run: "nat (min_speech_frames v0) - 1 \<le> length (takeWhile (energetic v0) (rev fs))"
          using True cnt msf by linarith
        have start: "snd (feed ?v f) = speech_start"
          using False e True by (simp add: feed_def Let_def)
        have "\<exists>pre seg. fs @ [f] = pre @ seg \<and> seg \<noteq> [] \<and> f = concat seg \<and>
            energetic v0 (hd seg) \<and> snd (feed (feeds v0 pre) (hd seg)) = speech_start \<and>
            nat (min_speech_frames v0) - 1 \<le> length (takeWhile (energetic v0) (rev pre))"
          using e en run start by (intro exI[of _ fs] exI[of _ "[f]"]) simp
        then show ?thesis using False e True
          by (simp add: feed_def Let_def vad_inv_def)
      next
        case F: False
        then show ?thesis using False e en cnt
          by (simp add: feed_def Let_def vad_inv_def)
      qed
    next
      case e: False
      then show ?thesis using False en
        by (simp add: feed_def Let_def vad_inv_def)
    qed
  qed
qed

lemma vad_inv_feeds:
  "\<not> is_speaking v0 \<Longrightarrow> speech_count v0 = 0 \<Longrightarrow> vad_inv v0 (feeds v0 fs) fs"
proof (induction fs rule: rev_induct)
  case Nil
  then show ?case by (simp add: vad_inv_def)
next
  case (snoc f fs)
  then show ?case
    using vad_inv_step[of v0 fs f] by (simp add: feeds_snoc)
qed

lemma feed_speech_end:
  "feed v f = (v', speech_end utt) \<Longrightarrow>
     is_speaking v \<and> \<not> energetic v f \<and> utt = audio_buffer v @ f"
  by (auto simp: feed_def Let_def split: if_splits)

lemma unpack_samples_length: "length (unpack_samples d) = length d div 2"
  by (induction d rule: unpack_samples.induct) simp_all

lemma sum_squares_nonneg: "0 \<le> sum_list (map (\<lambda>s. s * s) (xs :: int list))"
  by (induction xs) simp_all

lemma less_sqrt_iff: "0 \<le> t \<Longrightarrow> 0 \<le> q \<Longrightarrow> (t < sqrt q) = (t * t < q)"
proof -
  assume t: "0 \<le> t" and q: "0 \<le> q"
  have "(sqrt (t * t) < sqrt q) = (t * t < q)" by (rule real_sqrt_less_iff)
  moreover have "sqrt (t * t) = t" using t by simp
  ultimately show ?thesis by simp
qed

lemma energetic_iff:
  "energetic v pcm =
     (if length pcm < 2 then energy_threshold v < 0
      else energy_threshold v < 0 \<or>
           energy_threshold v * energy_threshold v * int (length (unpack_samples pcm))
             < sum_list (map (\<lambda>s. s * s) (unpack_samples pcm)))"
proof (cases "length pcm < 2")
  case True
  then show ?thesis by (simp add: energetic_def compute_rms_def)
next
  case False
  let ?xs = "unpack_samples pcm"
  let ?S = "sum_list (map (\<lambda>s. s * s) ?xs)"
  let ?t = "energy_threshold v"
  have ne: "?xs \<noteq> []" using False unpack_samples_length[of pcm] by (cases ?xs) auto
  then have n: "0 < real (length ?xs)" by simp
  have rms: "compute_rms pcm = sqrt (real_of_int ?S / real (length ?xs))"
    using False ne by (simp add: compute_rms_def Let_def)
  have q: "0 \<le> real_of_int ?S / real (length ?xs)"
    using sum_squares_nonneg[of ?xs] by simp
  show ?thesis
  proof (cases "?t < 0")
    case True
    have "0 \<le> compute_rms pcm" using q rms by simp
    then show ?thesis using True False by (simp add: energetic_def)
  next
    case nonneg: False
    then have t: "0 \<le> real_of_int ?t" by simp
    have "(real_of_int ?t < sqrt (real_of_int ?S / real (length ?xs))) =
          (real_of_int ?t * real_of_int ?t < real_of_int ?S / real (length ?xs))"
      using t q by (rule less_sqrt_iff)
    also have "\<dots> = (real_of_int ?t * real_of_int ?t * real (length ?xs) < real_of_int ?S)"
      using n by (simp add: pos_less_divide_eq)
    also have "\<dots> = (real_of_int (?t * ?t * int (length ?xs)) < real_of_int ?S)"
      by simp
    also have "\<dots> = (?t * ?t * int (length ?xs) < ?S)"
      by (rule of_int_less_iff)
    finally show ?thesis using nonneg False rms by (simp add: energetic_def)
  qed
qed

lemma loud_frame: "energy_threshold v = 200 \<Longrightarrow> energetic v [0x10, 0x27]"
  by (simp add: energetic_iff unpack_h_def)

lemma quiet_frame: "energy_threshold v = 200 \<Longrightarrow> \<not> energetic v [0, 0]"
  by (simp add: energetic_iff unpack_h_def)

lemma utterance_2: 
  "snd (feed (feeds (EnergyVAD_init 200 1 2 True) [[0x10, 0x27], [0x10, 0x27]]) [0, 0])
     = speech_end [0x10, 0x27, 0, 0]"
  by (simp add: feed_def Let_def EnergyVAD_init_def reset_def loud_frame quiet_frame)

text \<open>
  Claim C2 (amended). Whenever a \<open>feed\<close> call of a run started from a fresh detector
  returns \<open>speech_end utt\<close>, the audio \<open>utt\<close> is the concatenation of the frames fed from
  some frame on, up to the current one; on that first frame \<open>feed\<close> returned
  \<open>speech_start\<close>; that frame is energetic (its RMS exceeded \<open>energy_threshold\<close>), so
  the audio contains at least one energetic frame; and it was preceded by at least
  \<open>min_speech_frames - 1\<close> consecutive energetic frames, which are not part of the audio.
\<close>

theorem vad_speech_end_audio:
  assumes "feed (feeds (EnergyVAD_init thr sil msf en) fs) f = (v', speech_end utt)"
  shows "\<exists>pre seg. fs @ [f] = pre @ seg \<and> seg \<noteq> [] \<and> utt = concat seg \<and>
           energetic (EnergyVAD_init thr sil msf en) (hd seg) \<and>
           snd (feed (feeds (EnergyVAD_init thr sil msf en) pre) (hd seg)) = speech_start \<and>
           nat msf - 1 \<le> length (takeWhile (energetic (EnergyVAD_init thr sil msf en)) (rev pre))"
proof -
  let ?v0 = "EnergyVAD_init thr sil msf en"
  have inv: "vad_inv ?v0 (feeds ?v0 fs) fs"
    by (rule vad_inv_feeds) (simp_all add: EnergyVAD_init_def)
  from feed_speech_end[OF assms] have sp: "is_speaking (feeds ?v0 fs)"
    and au: "utt = audio_buffer (feeds ?v0 fs) @ f" by simp_all
  from inv sp obtain pre seg where ps: "fs = pre @ seg" "seg \<noteq> []"
      "audio_buffer (feeds ?v0 fs) = concat seg" "energetic ?v0 (hd seg)"
      "snd (feed (feeds ?v0 pre) (hd seg)) = speech_start"
      "nat (min_speech_frames ?v0) - 1 \<le> length (takeWhile (energetic ?v0) (rev pre))"
    by (auto simp: vad_inv_def)
  have "min_speech_frames ?v0 = msf" by (simp add: EnergyVAD_init_def)
  with ps au show ?thesis
    by (intro exI[of _ pre] exI[of _ "seg @ [f]"]) simp
qed

theorem vad_speech_end_audio_witness:
  "\<exists>pre seg. [[0x10, 0x27], [0x10, 0x27]] @ [[0, 0]] = pre @ seg \<and> seg \<noteq> [] \<and>
      [0x10, 0x27, 0, 0 :: byte] = concat seg \<and>
      energetic (EnergyVAD_init 200 1 2 True) (hd seg) \<and>
      snd (feed (feeds (EnergyVAD_init 200 1 2 True) pre) (hd seg)) = speech_start \<and>
      nat 2 - 1 \<le> length (takeWhile (energetic (EnergyVAD_init 200 1 2 True)) (rev pre))"
proof -
  let ?v = "feeds (EnergyVAD_init 200 1 2 True) [[0x10, 0x27], [0x10, 0x27]]"
  have "feed ?v [0, 0] = (fst (feed ?v [0, 0]), speech_end [0x10, 0x27, 0, 0])"
    using utterance_2 by (simp add: prod_eq_iff)
  then show ?thesis by (rule vad_speech_end_audio)
qed

text \<open>
  With \<open>min_speech_frames = 2\<close> and \<open>silence_frames = 1\<close>, two energetic frames and one
  silent frame end an utterance whose audio is the second energetic frame and the
  silent one: a single energetic frame, fewer than \<open>min_speech_frames\<close>.
\<close>

theorem vad_speech_end_audio_counterexample:
  "snd (feed (feeds (EnergyVAD_init 200 1 2 True) [[0x10, 0x27], [0x10, 0x27]]) [0, 0])
     = speech_end ([0x10, 0x27] @ [0, 0]) \<and>
   length (filter (energetic (EnergyVAD_init 200 1 2 True)) [[0x10, 0x27], [0, 0]]) < 2"
  by (simp add: feed_def Let_def EnergyVAD_init_def reset_def loud_frame quiet_frame)

subsection \<open>Downsampling: length of the output\<close>

lemma py_range_length:
  "0 < step \<Longrightarrow> int (length (py_range i stp step)) =
      (if i < stp then (stp - i + step - 1) div step else 0)"
proof (induction i stp step rule: py_range.induct)
  case (1 i stp step)
  show ?case
  proof (cases "i < stp")
    case True
    note lt = this
    show ?thesis
    proof (cases "i + step < stp")
      case True
      have "(stp - i + step - 1) div step = (stp - (i + step) + step - 1) div step + 1"
      proof -
        have "stp - i + step - 1 = (stp - (i + step) + step - 1) + step" by simp
        then show ?thesis using 1(2) by (metis div_add_self2 less_int_code(1) not_less_iff_gr_or_eq)
      qed
      then show ?thesis using 1 lt True by (subst py_range.simps) simp
    next
      case False
      have "(stp - i + step - 1) div step = 1"
      proof -
        have a: "step \<le> stp - i + step - 1" using lt by simp
        have b: "stp - i + step - 1 < 2 * step" using False by simp
        have "(stp - i + step - 1) div step = (stp - i - 1 + step) div step" by (simp add: algebra_simps)
        also have "\<dots> = (stp - i - 1) div step + 1" using 1(2) by simp
        also have "(stp - i - 1) div step = 0" using lt False 1(2) by (simp add: div_pos_pos_trivial)
        finally show ?thesis by simp
      qed
      then show ?thesis using 1 lt False by (subst py_range.simps) (simp add: py_range.simps[of "i + step"])
    qed
  next
    case False
    then show ?thesis by (subst py_range.simps) simp
  qed
qed

lemma pack_samples_length: "length (pack_samples out) = 2 * length out"
  by (induction out) (simp_all add: pack_samples_def pack_h_def)

lemma downsample_ratio:
  assumes "from_rate \<noteq> to_rate" "to_rate \<noteq> 0" "1 \<le> from_rate div to_rate"
  shows "\<exists>out. downsample data from_rate to_rate = Inr (pack_samples out) \<and>
           length out = length (py_range 0
             (int (length (unpack_samples data)) - from_rate div to_rate + 1)
             (from_rate div to_rate))"
  using assms unfolding downsample_def Let_def
  by simp (intro exI conjI, rule refl, simp)

text \<open>
  Claim C8 (amended). For positive rates \<open>r2 < r1\<close> with \<open>r1 mod r2 = 0\<close>, \<open>downsample\<close>
  returns normally and the length in bytes of its output is
  \<open>floor(len(b)/2 / (r1/r2)) * 2\<close>: one 2-byte sample for each full group of
  \<open>r1/r2\<close> input samples.
\<close>

theorem downsample_length:
  assumes "0 < r2" "r2 < r1" "r1 mod r2 = 0"
  shows "\<exists>out. downsample b r1 r2 = Inr out \<and>
           int (length out) = (int (length b) div 2) div (r1 div r2) * 2"
proof -
  let ?r = "r1 div r2"
  let ?n = "int (length (unpack_samples b))"
  have "0 < ?r" using assms(1,2) pos_imp_zdiv_pos_iff[of r2 r1] by simp
  then have r: "1 \<le> ?r" by simp
  have n: "?n = int (length b) div 2" by (simp add: unpack_samples_length zdiv_int)
  have len: "int (length (py_range 0 (?n - ?r + 1) ?r)) = ?n div ?r"
  proof (cases "0 < ?n - ?r + 1")
    case True
    then show ?thesis using r by (simp add: py_range_length)
  next
    case False
    then have "?n < ?r" by simp
    then show ?thesis using r False by (simp add: py_range_length div_pos_pos_trivial)
  qed
  from downsample_ratio[of r1 r2 b] assms(1,2) r
  obtain out where o: "downsample b r1 r2 = Inr (pack_samples out)"
    "length out = length (py_range 0 (?n - ?r + 1) ?r)" by auto
  have "int (length (pack_samples out)) = ?n div ?r * 2"
    using o(2) len by (simp add: pack_samples_length)
  then show ?thesis using o(1) n by simp
qed

theorem downsample_length_witness:
  "\<exists>out. downsample [0, 0, 0, 0] 16000 8000 = Inr out \<and>
      int (length out) = (int (length [0, 0, 0, 0 :: byte]) div 2) div (16000 div 8000) * 2"
proof -
  have "(0::int) < 8000" "(8000::int) < 16000" "(16000::int) mod 8000 = 0" by simp_all
  then show ?thesis by (rule downsample_length)
qed

text \<open>
  The equation as the claim writes it, with the output length doubled, fails on four
  bytes taken from 16 kHz to 8 kHz: the output is one sample, 2 bytes, and
  \<open>2 * 2 \<noteq> 1 * 2\<close>.
\<close>

theorem downsample_length_counterexample:
  "downsample [0, 0, 0, 0] 16000 8000 = Inr [0, 0] \<and>
     int (length [0, 0 :: byte]) * 2 \<noteq> (int (length [0, 0, 0, 0 :: byte]) div 2) div (16000 div 8000) * 2"
  by (simp add: downsample_def Let_def py_range.simps unpack_h_def pack_samples_def pack_h_def)


subsection \<open>Playback controller: \<open>is_playing\<close> after a call\<close>

lemma play_finally_not_playing: "\<not> is_playing (fst (play_finally st p))"
  by (simp add: play_finally_def)

lemma play_pcm_not_playing:
  "\<not> is_playing s \<Longrightarrow> \<not> is_playing (fst (fst (play_pcm s pcm rate env)))"
  by (simp add: play_pcm_def Let_def play_finally_not_playing split: sum.splits)

lemma stop_not_playing: "\<not> is_playing s \<Longrightarrow> \<not> is_playing (fst (stop s ok))"
  by (simp add: stop_def)

lemma close_not_playing: "\<not> is_playing s \<Longrightarrow> \<not> is_playing (close s)"
  by (simp add: close_def)

lemma playback_op_step_not_playing:
  "\<not> is_playing s \<Longrightarrow> \<not> is_playing (playback_op_step s op)"
  by (cases op) (simp_all add: play_pcm_not_playing stop_not_playing close_not_playing)

lemma playback_run_not_playing:
  "\<not> is_playing s \<Longrightarrow> \<not> is_playing (playback_run s ops)"
  unfolding playback_run_def
  by (induction ops arbitrary: s) (simp_all add: playback_op_step_not_playing)

text \<open>
  Claim C9. On a controller used from its construction by calls that do not overlap,
  every \<open>play_pcm\<close> call ends with \<open>is_playing\<close> false, whatever the input and the
  environment: the early return for empty input or a missing uuid and an exception of
  \<open>save_wav\<close> leave the flag as it was, false; every path through the \<open>try\<close> block
  (rejected broadcast, exception, preemption by \<open>stop()\<close>, completed wait) ends in the
  \<open>finally\<close> block, which clears it.
\<close>

theorem play_pcm_returns_not_playing:
  "is_playing (fst (fst (play_pcm (playback_run (FSPlayback_init u c) ops) pcm rate env))) = False"
proof -
  have "\<not> is_playing (FSPlayback_init u c)" by (simp add: FSPlayback_init_def)
  then have "\<not> is_playing (playback_run (FSPlayback_init u c) ops)"
    by (rule playback_run_not_playing)
  then show ?thesis using play_pcm_not_playing by simp
qed

theorem play_pcm_returns_not_playing_witness:
  "is_playing (fst (fst (play_pcm
      (playback_run (FSPlayback_init ''u-1'' ''call-0001'')
         [PlayPcm [0, 0] 8000 \<lparr> save_wav_ok = True, broadcast_out = Inr ''+OK'',
            at_broadcast = [], at_sleep = [] \<rparr>, Stop True, Close])
      [] 8000
      \<lparr> save_wav_ok = True, broadcast_out = Inr ''+OK'', at_broadcast = [],
        at_sleep = [] \<rparr>))) = False"
  by (rule play_pcm_returns_not_playing)


subsection \<open>Playback controller: \<open>play_pcm\<close> after \<open>close()\<close>\<close>

lemma str_int_0: "str_int 0 = ''0''"
  by (simp add: str_int_def str_nat.simps digit_char_def)

text \<open>
  Claim C3. After \<open>close()\<close>, \<open>play_pcm\<close> should return false without writing a scratch
  file or issuing a broadcast. The source tests \<open>is_active\<close> in the wait loop only:
  on a closed controller a call with two bytes of audio writes the scratch file, issues
  the broadcast, skips the wait and returns true.
\<close>

theorem play_pcm_after_close:
  "play_pcm (close (FSPlayback_init ''u-1'' ''call-0001'')) [0, 0] 8000
     \<lparr> save_wav_ok = True, broadcast_out = Inr ''+OK'', at_broadcast = [], at_sleep = [] \<rparr>
   = ((\<lparr> uuid = ''u-1'', call_id = ''call-0001'', is_playing = False, is_active = False,
         file_counter = 1 \<rparr>,
       [SaveWav ''/tmp/voice_pipeline/call-0001_0.wav'' [0, 0] 8000,
        Broadcast ''u-1'' ''/tmp/voice_pipeline/call-0001_0.wav'',
        Unlink ''/tmp/voice_pipeline/call-0001_0.wav'']),
      Inr True)"
  by (simp add: play_pcm_def close_def FSPlayback_init_def Let_def str_int_0 TTS_DIR_def
      env_steps_def wait_loop.simps play_finally_def)


subsection \<open>TTS adapter: chunks of a long text\<close>

lemma split_sentences_no_ender:
  "set cs \<inter> set sentence_enders = {} \<Longrightarrow>
     split_sentences cs temp sents =
       (if strip (temp @ cs) \<noteq> [] then sents @ [strip (temp @ cs)] else sents)"
  by (induction cs arbitrary: temp) (simp_all add: Let_def)

lemma strip_replicate: "\<not> is_space c \<Longrightarrow> strip (replicate n c) = replicate n c"
  by (cases n) (simp_all add: strip_def replicate_append_same[symmetric] del: replicate_Suc)

lemma split_text_one_sentence:
  assumes "\<not> is_space c" "c \<notin> set sentence_enders" "max_len < int n"
  shows "split_text (replicate n c) max_len = [replicate n c]"
proof -
  have n: "0 < n \<or> max_len < 0" using assms(3) by linarith
  have "split_sentences (replicate n c) [] [] =
          (if replicate n c \<noteq> [] then [replicate n c] else [])"
    using assms(1,2) by (cases "n = 0") (simp_all add: split_sentences_no_ender strip_replicate strip_def)
  then show ?thesis using assms(3) 
    by (cases "n = 0") (simp_all add: split_text_def Let_def slice_to_def)
qed

text \<open>
  Claim C7. \<open>_split_text\<close> should return chunks of at most about 900 characters. It
  cuts at sentence terminators only: a text of 2000 letters \<open>a\<close> without a terminator
  is one sentence and comes back as a single chunk of 2000 characters.
\<close>

theorem split_text_long_sentence:
  "split_text (replicate 2000 97) 900 = [replicate 2000 97] \<and>
   length (replicate 2000 (97::nat)) = 2000"
proof -
  have "\<not> is_space 97" by (simp add: is_space_def)
  moreover have "97 \<notin> set sentence_enders" by (simp add: sentence_enders_def)
  ultimately have "split_text (replicate 2000 97) 900 = [replicate 2000 97]"
    by (rule split_text_one_sentence) simp
  then show ?thesis by simp
qed


subsection \<open>Server front: the binary frame that carries the UUID\<close>

lemma matches_form_ascii: "matches_form p bs \<Longrightarrow> list_all (\<lambda>b. unat b < 128) bs"
  by (induction p bs rule: matches_form.induct) (auto simp: is_hex_def Let_def split: if_splits)

lemma matches_form_dash: "matches_form p bs \<Longrightarrow> False \<in> set p \<Longrightarrow> 45 \<in> set (map unat bs)"
  by (induction p bs rule: matches_form.induct) (auto split: if_splits)

lemma uuid_form_decode:
  assumes "uuid_form bs"
  shows "decode_ascii bs = Some (map unat bs) \<and> 45 \<in> set (map unat bs)"
proof -
  have "list_all (\<lambda>b. unat b < 128) bs"
    using assms unfolding uuid_form_def by (rule matches_form_ascii)
  moreover have "45 \<in> set (map unat bs)"
    using assms unfolding uuid_form_def by (rule matches_form_dash) (simp add: uuid_pattern_def)
  ultimately show ?thesis by (simp add: decode_ascii_def)
qed

lemma uuid_pattern_unfold:
  "uuid_pattern = [True, True, True, True, True, True, True, True, False,
     True, True, True, True, False, True, True, True, True, False, True, True, True, True, False,
     True, True, True, True, True, True, True, True, True, True, True, True]"
  by (simp add: uuid_pattern_def eval_nat_numeral)

lemma hex_a: "is_hex 0x61"
  by (simp add: is_hex_def)

lemma example_uuid_form: "uuid_form example_uuid"
  by (simp add: example_uuid_def uuid_form_def uuid_pattern_unfold hex_a)

text \<open>
  Claim C4 (amended). For every binary frame of more than 36 bytes that arrives while
  \<open>session.uuid\<close> is unset, if its first 36 bytes have the form of a UUID then the
  handler sets \<open>session.uuid\<close> to their ASCII decoding and spawns \<open>session.start\<close>;
  the frame is not passed to \<open>handle_audio\<close>.
\<close>

theorem binary_uuid_frame:
  assumes "length frame > 36" "uuid_form (take 36 frame)"
  shows "handle_message json_loads None (Binary frame)
           = (Some (JStr (map unat (take 36 frame))), [StartTask], None)"
  using uuid_form_decode[OF assms(2)] assms(1) by (simp add: handle_message_def)

theorem binary_uuid_frame_witness:
  "handle_message (\<lambda>t. None) None (Binary (example_uuid @ [0, 0]))
           = (Some (JStr (map unat (take 36 (example_uuid @ [0, 0])))), [StartTask], None)"
proof -
  have "length (example_uuid @ [0, 0]) > 36" by (simp add: example_uuid_def)
  moreover have "uuid_form (take 36 (example_uuid @ [0, 0]))" using example_uuid_form by (simp add: example_uuid_def)
  ultimately show ?thesis by (rule binary_uuid_frame)
qed
text \<open>
  A frame of exactly 36 bytes is not examined: the test is \<open>len(message) > 36\<close>. The
  frame that holds the 36 characters of a UUID and nothing else goes to \<open>handle_audio\<close>
  and \<open>session.uuid\<close> stays unset.
\<close>

theorem binary_uuid_frame_counterexample:
  "uuid_form example_uuid \<and> length example_uuid = 36 \<and>
   handle_message (\<lambda>t. None) None (Binary example_uuid) = (None, [HandleAudio example_uuid], None)"
  using example_uuid_form by (simp add: handle_message_def example_uuid_def)


subsection \<open>Telemetry: isolation of the sinks\<close>

lemma try_except_returns: "snd (try_except body label w) = None"
  by (simp add: try_except_def split: prod.splits option.splits)

lemma seq_try_returns: "(\<And>w1. snd (c2 w1) = None) \<Longrightarrow> snd (seq (try_except b l) c2 w) = None"
  using try_except_returns[of b l w] by (auto simp: seq_def split: prod.splits option.splits)

lemma storage_call_returns: "snd (storage_call rt fails c w) = None"
  by (cases c)
     (simp_all add: on_call_start_def on_user_speech_def on_bot_response_def on_barge_in_def
        on_call_end_def Let_def seq_try_returns try_except_returns)

lemmas telemetry_defs =
  on_call_start_def on_user_speech_def on_bot_response_def on_barge_in_def on_call_end_def
  barge_in_redis_def create_session_def update_session_def end_session_def push_message_def
  publish_event_def redis_hset_def redis_expire_def redis_rpush_def redis_publish_def
  pg_call_def mongo_call_def backend_def seq_def skip_def try_except_def
  pg_part_def mongo_part_def redis_part_def SESSION_TTL_def Let_def

lemma pg_writes_made:
  assumes "\<And>n. \<not> fails PG n"
  shows "pg_part (fst (storage_call rt fails c w)) = pg_part w @ pg_writes c"
  using assms by (cases c) (simp_all add: telemetry_defs split: option.splits)

lemma mongo_writes_made:
  assumes "\<And>n. \<not> fails Mongo n"
  shows "mongo_part (fst (storage_call rt fails c w)) = mongo_part w @ mongo_writes rt c"
  using assms by (cases c) (simp_all add: telemetry_defs split: option.splits)

lemma redis_writes_made:
  assumes "\<And>n. \<not> fails Redis n"
  shows "redis_part (fst (storage_call rt fails c w))
           = foldl redis_apply (redis_part w) (redis_writes rt c (redis_part w))"
  using assms by (cases c) (simp_all add: telemetry_defs split: option.splits)

text \<open>
  Claim C5. For each of the five recorder operations, when the backend calls of at most
  one sink \<open>k\<close> raise (any of them, at any point), the operation returns normally and
  performs all its writes to each other sink: the relational sink has received the calls
  \<open>pg_writes\<close> of the operation, the document sink the calls \<open>mongo_writes\<close>, and the
  ephemeral store is the result of the commands \<open>redis_writes\<close>, in order.
\<close>

theorem telemetry_sink_isolation:
  assumes "\<forall>s n. s \<noteq> k \<longrightarrow> \<not> fails s n"
  shows "snd (storage_call rt fails c w) = None \<and>
         (k \<noteq> PG \<longrightarrow> pg_part (fst (storage_call rt fails c w)) = pg_part w @ pg_writes c) \<and>
         (k \<noteq> Mongo \<longrightarrow> mongo_part (fst (storage_call rt fails c w))
                          = mongo_part w @ mongo_writes rt c) \<and>
         (k \<noteq> Redis \<longrightarrow> redis_part (fst (storage_call rt fails c w))
                          = foldl redis_apply (redis_part w) (redis_writes rt c (redis_part w)))"
  using assms storage_call_returns[of rt fails c w] pg_writes_made[of fails rt c w]
    mongo_writes_made[of fails rt c w] redis_writes_made[of fails rt c w]
  by auto

theorem telemetry_sink_isolation_witness:
  "\<forall>rt. snd (storage_call rt (\<lambda>s n. s = Mongo)
                 (OnCallEnd ''call-0001'' 2 1 0 ''completed'') empty_world) = None \<and>
        pg_part (fst (storage_call rt (\<lambda>s n. s = Mongo)
                  (OnCallEnd ''call-0001'' 2 1 0 ''completed'') empty_world))
          = pg_part empty_world @ pg_writes (OnCallEnd ''call-0001'' 2 1 0 ''completed'') \<and>
        redis_part (fst (storage_call rt (\<lambda>s n. s = Mongo)
                  (OnCallEnd ''call-0001'' 2 1 0 ''completed'') empty_world))
          = foldl redis_apply (redis_part empty_world)
              (redis_writes rt (OnCallEnd ''call-0001'' 2 1 0 ''completed'')
                 (redis_part empty_world))"
proof
  fix rt
  show "snd (storage_call rt (\<lambda>s n. s = Mongo)
                 (OnCallEnd ''call-0001'' 2 1 0 ''completed'') empty_world) = None \<and>
        pg_part (fst (storage_call rt (\<lambda>s n. s = Mongo)
                  (OnCallEnd ''call-0001'' 2 1 0 ''completed'') empty_world))
          = pg_part empty_world @ pg_writes (OnCallEnd ''call-0001'' 2 1 0 ''completed'') \<and>
        redis_part (fst (storage_call rt (\<lambda>s n. s = Mongo)
                  (OnCallEnd ''call-0001'' 2 1 0 ''completed'') empty_world))
          = foldl redis_apply (redis_part empty_world)
              (redis_writes rt (OnCallEnd ''call-0001'' 2 1 0 ''completed'')
                 (redis_part empty_world))"
    using telemetry_sink_isolation[of Mongo "\<lambda>s n. s = Mongo" rt
            "OnCallEnd ''call-0001'' 2 1 0 ''completed''" empty_world]
    by simp
qed

subsection \<open>Telemetry: the \<open>turns\<close> field of the session hash\<close>

lemma map_of_hset_field: "map_of (hset_field k v al) = (map_of al)(k \<mapsto> v)"
  by (induction al) (auto simp: fun_eq_iff)

lemma map_of_hset_mapping: "map_of (hset_mapping al kvs) = map_of al ++ map_of (rev kvs)"
  unfolding hset_mapping_def
  by (induction kvs arbitrary: al) (simp_all add: map_of_hset_field map_add_def fun_eq_iff split: option.splits)

text \<open>
  Claim C10. \<open>create_session\<close> sets the field \<open>turns\<close> of the hash \<open>call:{call_id}\<close> to
  \<open>"0"\<close>; \<open>on_user_speech\<close>, when its Redis calls succeed, overwrites that field with
  \<open>str(asr_latency_ms)\<close>, the ASR latency of the utterance, not a turn count.
\<close>

theorem on_user_speech_overwrites_turns:
  assumes "\<forall>n. \<not> fails Redis n"
  shows "map_of (hashes (fst (create_session fails cid st mode robot lang scen caller w))
                   (session_key cid)) ''turns'' = Some ''0'' \<and>
         map_of (hashes (fst (storage_call rt fails
                     (OnUserSpeech now cid text conf prov asr_latency_ms) w))
                   (session_key cid)) ''turns'' = Some (str_int asr_latency_ms)"
  using assms
  by (simp add: telemetry_defs map_of_hset_mapping split: option.splits prod.splits)

theorem on_user_speech_overwrites_turns_witness:
  "\<forall>rt. map_of (hashes (fst (create_session no_failure ''call-0001'' ''active'' ''pipeline''
                     ''bot'' ''ru'' [] ''unknown'' empty_world))
                   (session_key ''call-0001'')) ''turns'' = Some ''0'' \<and>
        map_of (hashes (fst (storage_call rt no_failure
                     (OnUserSpeech 0 ''call-0001'' ''hello'' 0 ''yandex'' 137) empty_world))
                   (session_key ''call-0001'')) ''turns'' = Some ''137''"
proof
  fix rt
  have h: "\<forall>n. \<not> no_failure Redis n" by (simp add: no_failure_def)
  have s: "str_int 137 = ''137''"
    by (simp add: str_int_def str_nat.simps digit_char_def)
  show "map_of (hashes (fst (create_session no_failure ''call-0001'' ''active'' ''pipeline''
                     ''bot'' ''ru'' [] ''unknown'' empty_world))
                   (session_key ''call-0001'')) ''turns'' = Some ''0'' \<and>
        map_of (hashes (fst (storage_call rt no_failure
                     (OnUserSpeech 0 ''call-0001'' ''hello'' 0 ''yandex'' 137) empty_world))
                   (session_key ''call-0001'')) ''turns'' = Some ''137''"
    using on_user_speech_overwrites_turns[of no_failure "''call-0001''" "''active''"
        "''pipeline''" "''bot''" "''ru''" "[]" "''unknown''" empty_world rt 0 "''hello''" 0
        "''yandex''" 137, OF h]
    by (simp add: s)
qed

subsection \<open>Sessions: an utterance recognized as empty text\<close>

text \<open>
  Claim C1 (amended). In the pipeline and script variants, when the recognition succeeds
  with empty text, \<open>_process_speech\<close> returns after the recognition: it has made no
  other call, the dialog context, the transcript and the turn metrics are unchanged, and
  \<open>barge_in_triggered\<close> is cleared; \<open>total_turns\<close> is one more than before, the counter
  being incremented on entry.
\<close>

theorem process_speech_empty_text:
  "pipeline_process_speech s fs_rate audio_data (env \<lparr> asr_outcome := Inr [] \<rparr>)
     = (s \<lparr> total_turns := total_turns s + 1, barge_in_triggered := False \<rparr>,
        [AsrRecognize audio_data fs_rate]) \<and>
   script_process_speech s tracks fs_rate audio_data (senv \<lparr> s_asr_outcome := Inr [] \<rparr>)
     = (s \<lparr> total_turns := total_turns s + 1, barge_in_triggered := False \<rparr>,
        [AsrRecognize audio_data fs_rate])"
  by (simp add: pipeline_process_speech_def script_process_speech_def)

theorem process_speech_empty_text_witness:
  "pipeline_process_speech (session_init [] True) 8000 [0, 0]
      (\<lparr> asr_outcome = Inr [104, 105], asr_ms = 120, llm_items = [], llm_raises = False,
         llm_total_ms = 0 \<rparr> \<lparr> asr_outcome := Inr [] \<rparr>)
     = ((session_init [] True) \<lparr> total_turns := total_turns (session_init [] True) + 1,
          barge_in_triggered := False \<rparr>,
        [AsrRecognize [0, 0] 8000]) \<and>
   script_process_speech (session_init [] True) [] 8000 [0, 0]
      (\<lparr> s_asr_outcome = Inr [104, 105], s_asr_ms = 120, chat_outcome = Inr [],
         during_chat = [], s_llm_ms = 0 \<rparr> \<lparr> s_asr_outcome := Inr [] \<rparr>)
     = ((session_init [] True) \<lparr> total_turns := total_turns (session_init [] True) + 1,
          barge_in_triggered := False \<rparr>,
        [AsrRecognize [0, 0] 8000])"
  by (rule process_speech_empty_text)

text \<open>
  On a fresh session the counter is 0 before the call and 1 after it, in both variants.
\<close>

theorem process_speech_empty_text_counterexample:
  "total_turns (fst (pipeline_process_speech (session_init [] False) 8000 [0, 0]
      \<lparr> asr_outcome = Inr [], asr_ms = 120, llm_items = [], llm_raises = False,
        llm_total_ms = 0 \<rparr>)) = 1 \<and>
   total_turns (session_init [] False) = 0 \<and>
   total_turns (fst (script_process_speech (session_init [] False) [] 8000 [0, 0]
      \<lparr> s_asr_outcome = Inr [], s_asr_ms = 120, chat_outcome = Inr [], during_chat = [],
        s_llm_ms = 0 \<rparr>)) = 1"
  by (simp add: pipeline_process_speech_def script_process_speech_def session_init_def)

end
